theory Spec2Isabelle
  imports Complex_Main "HOL-Library.AList"
begin

section \<open>Python values shared by the modules\<close>

text \<open>
  Python integers are unbounded and are modelled by \<open>int\<close>. The quotient of two
  integers (\<open>a / b\<close> in Python) is a correctly rounded float; where the tracker and
  the classifier compare such a quotient with a threshold, the model takes the exact
  rational \<open>a / b\<close>. For the confidences of the classifier the two agree on every
  comparison that the code makes: the values are the literals 0.6 to 0.9 and the halves
  of quotients of keyword counts, and rounding keeps their order. For the accuracies of
  the tracker they agree as long as the counters stay below \<open>2 ^ 50\<close>.

  A dictionary is an association list read with \<open>map_of\<close> and written with
  \<open>AList.update\<close>, which replaces the value of a present key in place and appends an
  absent key at the end, as a Python \<open>dict\<close> does.
\<close>

datatype py_error = ZeroDivisionError | OverflowError | ValueError | IndexError

text \<open>A \<open>datetime\<close> is a count of microseconds; \<open>isoformat\<close> and \<open>fromisoformat\<close>
  are inverse to each other and are not represented.\<close>

type_synonym datetime = int

text \<open>
  The content of a JSON file: the file is not there, or it holds a value that
  \<open>json.load\<close> returns in the shape the tracker expects, or reading it raises
  (the \<open>except Exception\<close> branch of the loaders).
\<close>

datatype 'a json_file = Missing | Holds 'a | Unreadable

section \<open>The data model of \<open>learning_tracker.py\<close>\<close>

record interaction =
  int_timestamp :: datetime
  int_type :: string
  int_input :: string
  int_response :: string
  int_success :: bool

record performance_metrics =
  questions_asked :: int
  pm_correct_answers :: int
  pm_incorrect_answers :: int
  hints_used :: int
  topics_explored :: int

record learning_session =
  session_id :: string
  start_time :: datetime
  end_time :: "datetime option"
  topics_covered :: "string list"
  interactions :: "interaction list"
  performance_metrics :: performance_metrics
  emotion_data :: "(string \<times> string) list list"

record topic_progress =
  topic_name :: string
  knowledge_level :: string
  first_encountered :: datetime
  last_studied :: datetime
  total_time_spent :: int
  correct_answers :: int
  incorrect_answers :: int
  concepts_mastered :: "string list"
  struggling_areas :: "string list"

record student_profile =
  student_id :: string
  name :: "string option"
  grade_level :: "string option"
  learning_style :: string
  topics :: "(string \<times> topic_progress) list"
  total_sessions :: int
  total_learning_time :: int
  strengths :: "string list"
  areas_for_improvement :: "string list"

text \<open>The dictionary kept in \<open>temp_progress.json\<close>; both keys may be absent.\<close>

record session_summary =
  sum_session_id :: string
  sum_start_time :: datetime
  sum_topics_covered :: "string list"
  sum_performance :: performance_metrics

record learning_objective =
  obj_topic :: string
  obj_objective :: string
  obj_difficulty :: string
  obj_created_at :: datetime
  obj_completed :: bool
  obj_completed_at :: "datetime option"

record temp_progress =
  tp_current_session :: "session_summary option"
  tp_learning_objectives :: "learning_objective list option"

text \<open>
  The tracker object: its two attributes, the three files it owns (by content), and
  the number of clock readings taken so far. The clock itself is an input: reading
  number \<open>k\<close> of \<open>datetime.now()\<close> is \<open>datetime_now clk k\<close>, and of
  \<open>int(time.time())\<close> is \<open>time_time clk k\<close>.
\<close>

record clock =
  datetime_now :: "nat \<Rightarrow> datetime"
  time_time :: "nat \<Rightarrow> int"

record learning_tracker =
  current_session :: "learning_session option"
  student_profile :: "student_profile option"
  profile_file :: "student_profile json_file"
  sessions_file :: "learning_session list json_file"
  temp_progress_file :: "temp_progress json_file"
  clock_reads :: nat

subsection \<open>\<open>get_topic_knowledge\<close>\<close>

text \<open>
  The \<open>performance\<close> entry is the text \<open>f"{accuracy:.1%} accuracy ({correct}/{total})"\<close>;
  it is represented by the three values it is formatted from.
\<close>

datatype performance = No_data | Accuracy_of rat int int

record topic_knowledge =
  level :: string
  performance :: performance
  tk_struggling_areas :: "string list option"
  tk_concepts_mastered :: "string list option"
  needs_assessment :: bool

definition get_topic_knowledge :: "learning_tracker \<Rightarrow> string \<Rightarrow> topic_knowledge option" where
  "get_topic_knowledge self topic =
     (case student_profile self of
        None \<Rightarrow> None
      | Some profile \<Rightarrow>
          (case map_of (topics profile) topic of
             None \<Rightarrow> None
           | Some tp \<Rightarrow>
               (let total_answers = correct_answers tp + incorrect_answers tp in
                if total_answers = 0 then
                  Some \<lparr>level = ''unknown'', performance = No_data,
                        tk_struggling_areas = None, tk_concepts_mastered = None,
                        needs_assessment = True\<rparr>
                else
                  (let accuracy = (of_int (correct_answers tp) :: rat) / of_int total_answers;
                       lvl = (if accuracy \<ge> 0.8 \<and> total_answers \<ge> 5 then ''advanced''
                              else if accuracy \<ge> 0.6 \<and> total_answers \<ge> 3 then ''intermediate''
                              else ''beginner'')
                   in Some \<lparr>level = lvl,
                            performance = Accuracy_of accuracy (correct_answers tp) total_answers,
                            tk_struggling_areas = Some (struggling_areas tp),
                            tk_concepts_mastered = Some (concepts_mastered tp),
                            needs_assessment = False\<rparr>))))"

section \<open>Strings\<close>

text \<open>
  Text is a list of characters with codes below 256. On such text \<open>lower\<close> is
  \<open>str.lower\<close> (the capital letters are \<open>A\<close> to \<open>Z\<close> and the codes 192 to 222
  without 215), and \<open>contains sub s\<close> is the Python test \<open>sub in s\<close>.
\<close>

definition capital_letters :: string where
  "capital_letters =
     ''ABCDEFGHIJKLMNOPQRSTUVWXYZ'' @
       [CHR 0xC0, CHR 0xC1, CHR 0xC2, CHR 0xC3, CHR 0xC4, CHR 0xC5, CHR 0xC6, CHR 0xC7,
        CHR 0xC8, CHR 0xC9, CHR 0xCA, CHR 0xCB, CHR 0xCC, CHR 0xCD, CHR 0xCE, CHR 0xCF,
        CHR 0xD0, CHR 0xD1, CHR 0xD2, CHR 0xD3, CHR 0xD4, CHR 0xD5, CHR 0xD6, CHR 0xD8,
        CHR 0xD9, CHR 0xDA, CHR 0xDB, CHR 0xDC, CHR 0xDD, CHR 0xDE]"

definition small_letters :: string where
  "small_letters =
     ''abcdefghijklmnopqrstuvwxyz'' @
       [CHR 0xE0, CHR 0xE1, CHR 0xE2, CHR 0xE3, CHR 0xE4, CHR 0xE5, CHR 0xE6, CHR 0xE7,
        CHR 0xE8, CHR 0xE9, CHR 0xEA, CHR 0xEB, CHR 0xEC, CHR 0xED, CHR 0xEE, CHR 0xEF,
        CHR 0xF0, CHR 0xF1, CHR 0xF2, CHR 0xF3, CHR 0xF4, CHR 0xF5, CHR 0xF6, CHR 0xF8,
        CHR 0xF9, CHR 0xFA, CHR 0xFB, CHR 0xFC, CHR 0xFD, CHR 0xFE]"

definition lower_char :: "char \<Rightarrow> char" where
  "lower_char c =
     (case map_of (zip capital_letters small_letters) c of
        None \<Rightarrow> c
      | Some d \<Rightarrow> d)"

definition lower :: "string \<Rightarrow> string" where
  "lower s = map lower_char s"

fun starts_with :: "string \<Rightarrow> string \<Rightarrow> bool" where
  "starts_with [] s = True"
| "starts_with (p # ps) [] = False"
| "starts_with (p # ps) (c # cs) = (p = c \<and> starts_with ps cs)"

fun contains :: "string \<Rightarrow> string \<Rightarrow> bool" where
  "contains sub [] = (sub = [])"
| "contains sub (c # cs) = (starts_with sub (c # cs) \<or> contains sub cs)"

text \<open>\<open>str(n)\<close> for an integer: the decimal digits, with a minus sign below zero.\<close>

fun str_nat :: "nat \<Rightarrow> string" where
  "str_nat n = (if n < 10 then [''0123456789'' ! n]
                else str_nat (n div 10) @ [''0123456789'' ! (n mod 10)])"

declare str_nat.simps [simp del]

definition str_int :: "int \<Rightarrow> string" where
  "str_int i = (if i < 0 then CHR ''-'' # str_nat (nat (- i)) else str_nat (nat i))"

text \<open>The number that a decimal text denotes; it reads back what \<open>str_int\<close> writes.\<close>

definition digit_value :: "char \<Rightarrow> nat" where
  "digit_value c = of_char c - 48"

definition decimal_value :: "string \<Rightarrow> nat" where
  "decimal_value s = foldl (\<lambda>v c. 10 * v + digit_value c) 0 s"

definition int_value :: "string \<Rightarrow> int" where
  "int_value s =
     (case s of
        [] \<Rightarrow> 0
      | c # cs \<Rightarrow> if c = CHR ''-'' then - int (decimal_value cs) else int (decimal_value s))"

text \<open>\<open>int(x)\<close> for a float: truncation towards zero.\<close>

definition py_int :: "rat \<Rightarrow> int" where
  "py_int x = (if x \<ge> 0 then \<lfloor>x\<rfloor> else \<lceil>x\<rceil>)"

section \<open>The operations of \<open>learning_tracker.py\<close>\<close>

definition load_student_profile :: "learning_tracker \<Rightarrow> learning_tracker" where
  "load_student_profile self =
     (case profile_file self of
        Missing \<Rightarrow> self
      | Holds data \<Rightarrow> self\<lparr>student_profile := Some data\<rparr>
      | Unreadable \<Rightarrow> self)"

text \<open>The constructor, given what the data directory holds.\<close>

definition init :: "student_profile json_file \<Rightarrow> learning_session list json_file \<Rightarrow>
    temp_progress json_file \<Rightarrow> nat \<Rightarrow> learning_tracker" where
  "init pf sf tf k =
     load_student_profile
       \<lparr>current_session = None, student_profile = None,
        profile_file = pf, sessions_file = sf, temp_progress_file = tf, clock_reads = k\<rparr>"

definition save_student_profile :: "learning_tracker \<Rightarrow> learning_tracker" where
  "save_student_profile self =
     (case student_profile self of
        None \<Rightarrow> self
      | Some data \<Rightarrow> self\<lparr>profile_file := Holds data\<rparr>)"

text \<open>\<open>sessions[-50:]\<close>\<close>

definition last_50 :: "'a list \<Rightarrow> 'a list" where
  "last_50 sessions = drop (length sessions - 50) sessions"

definition save_session_data :: "learning_tracker \<Rightarrow> learning_tracker" where
  "save_session_data self =
     (case current_session self of
        None \<Rightarrow> self
      | Some session_data \<Rightarrow>
          (case sessions_file self of
             Missing \<Rightarrow> self\<lparr>sessions_file := Holds (last_50 ([] @ [session_data]))\<rparr>
           | Holds sessions \<Rightarrow> self\<lparr>sessions_file := Holds (last_50 (sessions @ [session_data]))\<rparr>
           | Unreadable \<Rightarrow> self))"

definition load_temp_progress :: "learning_tracker \<Rightarrow> temp_progress" where
  "load_temp_progress self =
     (case temp_progress_file self of
        Missing \<Rightarrow> \<lparr>tp_current_session = None, tp_learning_objectives = None\<rparr>
      | Holds data \<Rightarrow> data
      | Unreadable \<Rightarrow> \<lparr>tp_current_session = None, tp_learning_objectives = None\<rparr>)"

definition save_temp_progress_data :: "temp_progress \<Rightarrow> learning_tracker \<Rightarrow> learning_tracker" where
  "save_temp_progress_data data self = self\<lparr>temp_progress_file := Holds data\<rparr>"

definition save_temp_progress :: "learning_tracker \<Rightarrow> learning_tracker" where
  "save_temp_progress self =
     (let temp_data = load_temp_progress self;
          temp_data' =
            (case current_session self of
               None \<Rightarrow> temp_data
             | Some s \<Rightarrow>
                 temp_data\<lparr>tp_current_session :=
                   Some \<lparr>sum_session_id = session_id s, sum_start_time = start_time s,
                         sum_topics_covered = topics_covered s,
                         sum_performance = performance_metrics s\<rparr>\<rparr>)
      in save_temp_progress_data temp_data' self)"

definition create_default_profile :: "clock \<Rightarrow> learning_tracker \<Rightarrow> learning_tracker" where
  "create_default_profile clk self =
     self\<lparr>student_profile :=
            Some \<lparr>student_id = ''student_'' @ str_int (time_time clk (clock_reads self)),
                  name = None, grade_level = None, learning_style = ''visual'',
                  topics = [], total_sessions = 0, total_learning_time = 0,
                  strengths = [], areas_for_improvement = []\<rparr>,
          clock_reads := clock_reads self + 1\<rparr>"

text \<open>\<open>if not self.student_profile: self._create_default_profile()\<close>\<close>

definition ensure_profile :: "clock \<Rightarrow> learning_tracker \<Rightarrow> learning_tracker" where
  "ensure_profile clk self =
     (case student_profile self of
        None \<Rightarrow> create_default_profile clk self
      | Some _ \<Rightarrow> self)"

definition new_topic_progress :: "string \<Rightarrow> datetime \<Rightarrow> datetime \<Rightarrow> topic_progress" where
  "new_topic_progress topic t1 t2 =
     \<lparr>topic_name = topic, knowledge_level = ''unknown'',
      first_encountered = t1, last_studied = t2, total_time_spent = 0,
      correct_answers = 0, incorrect_answers = 0,
      concepts_mastered = [], struggling_areas = []\<rparr>"

definition create_topic_progress :: "clock \<Rightarrow> string \<Rightarrow> learning_tracker \<Rightarrow> learning_tracker" where
  "create_topic_progress clk topic self =
     (let self1 = ensure_profile clk self; k = clock_reads self1 in
      case student_profile self1 of
        None \<Rightarrow> self1 \<comment> \<open>not reached: \<open>ensure_profile\<close> has set the profile\<close>
      | Some profile \<Rightarrow>
          self1\<lparr>student_profile :=
                  Some (profile\<lparr>topics :=
                    AList.update topic
                      (new_topic_progress topic (datetime_now clk k) (datetime_now clk (k + 1)))
                      (topics profile)\<rparr>),
                clock_reads := k + 2\<rparr>)"

text \<open>\<open>if topic not in self.student_profile.topics: self._create_topic_progress(topic)\<close>\<close>

definition ensure_topic :: "clock \<Rightarrow> string \<Rightarrow> learning_tracker \<Rightarrow> learning_tracker" where
  "ensure_topic clk topic self =
     (case student_profile self of
        None \<Rightarrow> self \<comment> \<open>not reached: every caller runs \<open>ensure_profile\<close> first\<close>
      | Some profile \<Rightarrow>
          (if map_of (topics profile) topic = None then create_topic_progress clk topic self
           else self))"

definition mark_topic_encountered :: "clock \<Rightarrow> string \<Rightarrow> learning_tracker \<Rightarrow> learning_tracker" where
  "mark_topic_encountered clk topic self =
     save_student_profile (ensure_topic clk topic (ensure_profile clk self))"

definition start_new_session :: "clock \<Rightarrow> learning_tracker \<Rightarrow> learning_tracker" where
  "start_new_session clk self =
     (let k = clock_reads self in
      self\<lparr>current_session :=
             Some \<lparr>session_id = ''session_'' @ str_int (time_time clk k),
                   start_time = datetime_now clk (k + 1), end_time = None,
                   topics_covered = [], interactions = [],
                   performance_metrics =
                     \<lparr>questions_asked = 0, pm_correct_answers = 0, pm_incorrect_answers = 0,
                      hints_used = 0, topics_explored = 0\<rparr>,
                   emotion_data = []\<rparr>,
           clock_reads := k + 2\<rparr>)"

definition topic_keywords :: "(string \<times> string list) list" where
  "topic_keywords =
     [(''math'', [''math'', ''add'', ''subtract'', ''multiply'', ''divide'', ''number'', ''calculate'']),
      (''reading'', [''read'', ''story'', ''book'', ''text'', ''comprehension'']),
      (''science'', [''science'', ''experiment'', ''hypothesis'', ''theory'']),
      (''writing'', [''write'', ''essay'', ''paragraph'', ''grammar''])]"

fun first_topic :: "string \<Rightarrow> (string \<times> string list) list \<Rightarrow> string option" where
  "first_topic text_lower [] = None"
| "first_topic text_lower ((topic, keywords) # rest) =
     (if \<exists>keyword \<in> set keywords. contains keyword text_lower then Some topic
      else first_topic text_lower rest)"

definition extract_topic_from_interaction :: "string \<Rightarrow> string option" where
  "extract_topic_from_interaction text = first_topic (lower text) topic_keywords"

definition log_interaction ::
    "clock \<Rightarrow> string \<Rightarrow> string \<Rightarrow> string \<Rightarrow> learning_tracker \<Rightarrow> learning_tracker" where
  "log_interaction clk interaction_type input_text response self =
     (let self1 = (if current_session self = None then start_new_session clk self else self);
          k = clock_reads self1 in
      case current_session self1 of
        None \<Rightarrow> self1 \<comment> \<open>not reached: a session has just been started\<close>
      | Some s \<Rightarrow>
          (let item = \<lparr>int_timestamp = datetime_now clk k, int_type = interaction_type,
                       int_input = input_text, int_response = response, int_success = True\<rparr>;
               pm = performance_metrics s;
               s1 = s\<lparr>interactions := interactions s @ [item],
                      performance_metrics := pm\<lparr>questions_asked := questions_asked pm + 1\<rparr>\<rparr>;
               s2 = (case extract_topic_from_interaction input_text of
                       None \<Rightarrow> s1
                     | Some topic \<Rightarrow>
                         (if topic \<noteq> [] \<and> topic \<notin> set (topics_covered s1) then
                            s1\<lparr>topics_covered := topics_covered s1 @ [topic],
                               performance_metrics :=
                                 (performance_metrics s1)
                                   \<lparr>topics_explored := topics_explored (performance_metrics s1) + 1\<rparr>\<rparr>
                          else s1))
           in self1\<lparr>current_session := Some s2, clock_reads := k + 1\<rparr>))"

text \<open>
  The loop of \<open>end_current_session\<close> over the topics of the session; \<open>n\<close> is
  \<open>len(topics_covered)\<close>, which is not zero when the body runs.
\<close>

fun update_topic_times ::
    "clock \<Rightarrow> rat \<Rightarrow> nat \<Rightarrow> string list \<Rightarrow> (string \<times> topic_progress) list \<times> nat \<Rightarrow>
     (string \<times> topic_progress) list \<times> nat" where
  "update_topic_times clk duration n [] (ts, k) = (ts, k)"
| "update_topic_times clk duration n (topic # rest) (ts, k) =
     (case map_of ts topic of
        None \<Rightarrow> update_topic_times clk duration n rest (ts, k)
      | Some tp \<Rightarrow>
          update_topic_times clk duration n rest
            (AList.update topic
               (tp\<lparr>last_studied := datetime_now clk k,
                   total_time_spent := total_time_spent tp + py_int (duration / of_nat n)\<rparr>) ts,
             k + 1))"

definition end_current_session :: "clock \<Rightarrow> learning_tracker \<Rightarrow> learning_tracker" where
  "end_current_session clk self =
     (case current_session self of
        None \<Rightarrow> self
      | Some s \<Rightarrow>
          (let k = clock_reads self;
               s1 = s\<lparr>end_time := Some (datetime_now clk k)\<rparr>;
               duration = (of_int (datetime_now clk k - start_time s1) :: rat) / 1000000 / 60;
               self1 = self\<lparr>current_session := Some s1, clock_reads := k + 1\<rparr>;
               self2 =
                 (case student_profile self1 of
                    None \<Rightarrow> self1
                  | Some profile \<Rightarrow>
                      (let (ts, k') =
                             update_topic_times clk duration (length (topics_covered s1))
                               (topics_covered s1) (topics profile, k + 1)
                       in self1\<lparr>student_profile :=
                                   Some (profile\<lparr>total_sessions := total_sessions profile + 1,
                                     total_learning_time :=
                                       total_learning_time profile + py_int duration,
                                     topics := ts\<rparr>),
                                 clock_reads := k'\<rparr>))
           in (save_student_profile (save_session_data self2))\<lparr>current_session := None\<rparr>))"

text \<open>
  \<open>log_answer_result\<close> returns the tracker as the call leaves it, together with the
  exception that ended the call, if any: the quotient in the branch of a correct answer
  divides by the sum of the two counters.
\<close>

definition add_strength :: "string \<Rightarrow> student_profile \<Rightarrow> student_profile" where
  "add_strength topic profile =
     (let p1 = profile\<lparr>strengths := strengths profile @ [topic]\<rparr> in
      if topic \<in> set (areas_for_improvement p1)
      then p1\<lparr>areas_for_improvement := remove1 topic (areas_for_improvement p1)\<rparr>
      else p1)"

definition add_area_for_improvement :: "string \<Rightarrow> student_profile \<Rightarrow> student_profile" where
  "add_area_for_improvement topic profile =
     (let p1 = profile\<lparr>areas_for_improvement := areas_for_improvement profile @ [topic]\<rparr> in
      if topic \<in> set (strengths p1)
      then p1\<lparr>strengths := remove1 topic (strengths p1)\<rparr>
      else p1)"

definition answer_correct ::
    "string \<Rightarrow> topic_progress \<Rightarrow> student_profile \<Rightarrow> student_profile \<times> py_error option" where
  "answer_correct topic tp profile =
     (let tp1 = tp\<lparr>correct_answers := correct_answers tp + 1\<rparr>;
          p1 = profile\<lparr>topics := AList.update topic tp1 (topics profile)\<rparr> in
      if correct_answers tp1 \<ge> 3 then
        (if correct_answers tp1 + incorrect_answers tp1 = 0 then (p1, Some ZeroDivisionError)
         else
           (let accuracy = (of_int (correct_answers tp1) :: rat)
                             / of_int (correct_answers tp1 + incorrect_answers tp1) in
            if accuracy \<ge> 0.75 \<and> topic \<notin> set (strengths p1) then (add_strength topic p1, None)
            else (p1, None)))
      else (p1, None))"

definition answer_incorrect ::
    "string \<Rightarrow> topic_progress \<Rightarrow> student_profile \<Rightarrow> student_profile \<times> py_error option" where
  "answer_incorrect topic tp profile =
     (let tp1 = tp\<lparr>incorrect_answers := incorrect_answers tp + 1\<rparr>;
          p1 = profile\<lparr>topics := AList.update topic tp1 (topics profile)\<rparr>;
          total_attempts = correct_answers tp1 + incorrect_answers tp1 in
      if total_attempts \<ge> 3 then
        (let accuracy = (of_int (correct_answers tp1) :: rat) / of_int total_attempts in
         if accuracy < 0.5 \<and> topic \<notin> set (areas_for_improvement p1)
         then (add_area_for_improvement topic p1, None)
         else (p1, None))
      else (p1, None))"

definition log_answer_result ::
    "clock \<Rightarrow> string \<Rightarrow> bool \<Rightarrow> learning_tracker \<Rightarrow> learning_tracker \<times> py_error option" where
  "log_answer_result clk topic is_correct self =
     (case current_session self of
        None \<Rightarrow> (self, None)
      | Some s \<Rightarrow>
          (let pm = performance_metrics s;
               pm1 = (if is_correct then pm\<lparr>pm_correct_answers := pm_correct_answers pm + 1\<rparr>
                      else pm\<lparr>pm_incorrect_answers := pm_incorrect_answers pm + 1\<rparr>);
               self1 = self\<lparr>current_session := Some (s\<lparr>performance_metrics := pm1\<rparr>)\<rparr>;
               self2 = ensure_topic clk topic (ensure_profile clk self1) in
           case student_profile self2 of
             None \<Rightarrow> (self2, None) \<comment> \<open>not reached\<close>
           | Some profile \<Rightarrow>
               (case map_of (topics profile) topic of
                  None \<Rightarrow> (self2, None) \<comment> \<open>not reached\<close>
                | Some tp \<Rightarrow>
                    (let (p', exc) = (if is_correct then answer_correct topic tp profile
                                      else answer_incorrect topic tp profile);
                         self3 = self2\<lparr>student_profile := Some p'\<rparr> in
                     case exc of
                       Some e \<Rightarrow> (self3, Some e)
                     | None \<Rightarrow> (save_student_profile (save_temp_progress self3), None)))))"


subsection \<open>Predicates on the state of the tracker\<close>

text \<open>The topics of the profile in memory, as a map; no profile has no topics.\<close>

definition topics_of :: "learning_tracker \<Rightarrow> string \<Rightarrow> topic_progress option" where
  "topics_of self =
     (case student_profile self of None \<Rightarrow> Map.empty | Some p \<Rightarrow> map_of (topics p))"

definition lists_apart :: "student_profile \<Rightarrow> bool" where
  "lists_apart p \<longleftrightarrow>
     distinct (strengths p) \<and> distinct (areas_for_improvement p) \<and>
     set (strengths p) \<inter> set (areas_for_improvement p) = {}"

definition counters_nonneg :: "student_profile \<Rightarrow> bool" where
  "counters_nonneg p \<longleftrightarrow>
     (\<forall>t tp. map_of (topics p) t = Some tp \<longrightarrow>
        0 \<le> correct_answers tp \<and> 0 \<le> incorrect_answers tp)"

definition profile_ok :: "learning_tracker \<Rightarrow> bool" where
  "profile_ok self \<longleftrightarrow>
     (case student_profile self of
        None \<Rightarrow> True
      | Some p \<Rightarrow> lists_apart p \<and> counters_nonneg p)"

subsection \<open>A tracker in the middle of a session\<close>

definition example_clock :: clock where
  "example_clock = \<lparr>datetime_now = (\<lambda>k. 90000000 * int k), time_time = (\<lambda>k. 1700000000 + int k)\<rparr>"

definition example_math :: topic_progress where
  "example_math =
     \<lparr>topic_name = ''math'', knowledge_level = ''unknown'',
      first_encountered = 0, last_studied = 0, total_time_spent = 0,
      correct_answers = 4, incorrect_answers = 1,
      concepts_mastered = [], struggling_areas = []\<rparr>"

definition example_profile :: student_profile where
  "example_profile =
     \<lparr>student_id = ''student_1'', name = None, grade_level = None, learning_style = ''visual'',
      topics = [(''math'', example_math)], total_sessions = 1, total_learning_time = 0,
      strengths = [], areas_for_improvement = []\<rparr>"

definition example_session :: learning_session where
  "example_session =
     \<lparr>session_id = ''session_2'', start_time = 0, end_time = None,
      topics_covered = [''math''], interactions = [],
      performance_metrics =
        \<lparr>questions_asked = 0, pm_correct_answers = 0, pm_incorrect_answers = 0,
         hints_used = 0, topics_explored = 1\<rparr>,
      emotion_data = []\<rparr>"

definition example_tracker :: learning_tracker where
  "example_tracker =
     \<lparr>current_session = Some example_session, student_profile = Some example_profile,
      profile_file = Holds example_profile,
      sessions_file = Holds [example_session\<lparr>session_id := ''session_1'', end_time := Some 0\<rparr>],
      temp_progress_file = Missing, clock_reads = 1\<rparr>"

section \<open>\<open>intent_classifier.py\<close>\<close>

text \<open>
  \<open>re.search\<close> belongs to the Python library: the classifier takes it as a parameter
  \<open>re_search pattern text\<close>, true when the pattern matches somewhere in the text. The
  patterns are kept as the texts the source gives; \<open>bs\<close> is the backslash.
\<close>

definition bs :: string where
  "bs = [CHR 0x5C]"

record intent_pattern =
  pattern :: string
  ip_intent :: string
  ip_confidence :: rat
  ip_keywords :: "string list"

definition command_patterns :: "intent_pattern list" where
  "command_patterns =
     [\<lparr>pattern = ''(turn on|start|open|activate|enable).*(camera|cam)'',
       ip_intent = ''command'', ip_confidence = 0.9,
       ip_keywords = [''camera'', ''turn on'', ''start'', ''activate'']\<rparr>,
      \<lparr>pattern = ''(turn off|stop|close|deactivate|disable).*(camera|cam)'',
       ip_intent = ''command'', ip_confidence = 0.9,
       ip_keywords = [''camera'', ''turn off'', ''stop'', ''deactivate'']\<rparr>,
      \<lparr>pattern = ''(take|capture).*(photo|picture|image|snapshot)'',
       ip_intent = ''command'', ip_confidence = 0.8,
       ip_keywords = [''take'', ''capture'', ''photo'', ''picture'']\<rparr>,
      \<lparr>pattern = ''(add|plus|'' @ bs @ ''+).*('' @ bs @ ''d+).*('' @ bs @ ''d+)'',
       ip_intent = ''command'', ip_confidence = 0.8,
       ip_keywords = [''add'', ''plus'', ''numbers'']\<rparr>,
      \<lparr>pattern = ''(subtract|minus|'' @ bs @ ''-).*('' @ bs @ ''d+).*('' @ bs @ ''d+)'',
       ip_intent = ''command'', ip_confidence = 0.8,
       ip_keywords = [''subtract'', ''minus'', ''numbers'']\<rparr>,
      \<lparr>pattern = ''(multiply|times|'' @ bs @ ''*).*('' @ bs @ ''d+).*('' @ bs @ ''d+)'',
       ip_intent = ''command'', ip_confidence = 0.8,
       ip_keywords = [''multiply'', ''times'', ''numbers'']\<rparr>,
      \<lparr>pattern = ''(divide|divided by|'' @ bs @ ''/).*('' @ bs @ ''d+).*('' @ bs @ ''d+)'',
       ip_intent = ''command'', ip_confidence = 0.8,
       ip_keywords = [''divide'', ''numbers'']\<rparr>,
      \<lparr>pattern = ''(clear|clean|erase|reset).*(board|screen|canvas)'',
       ip_intent = ''command'', ip_confidence = 0.9,
       ip_keywords = [''clear'', ''clean'', ''board'', ''screen'']\<rparr>,
      \<lparr>pattern = ''(draw|show me|display).*(apple|apples)'',
       ip_intent = ''command'', ip_confidence = 0.7,
       ip_keywords = [''draw'', ''show'', ''apple'']\<rparr>,
      \<lparr>pattern = ''(draw|show me|display).*(circle|circles)'',
       ip_intent = ''command'', ip_confidence = 0.7,
       ip_keywords = [''draw'', ''show'', ''circle'']\<rparr>,
      \<lparr>pattern = ''(set|start).*(timer|alarm).*('' @ bs @ ''d+).*(minute|second)'',
       ip_intent = ''command'', ip_confidence = 0.8,
       ip_keywords = [''timer'', ''set'', ''minute'', ''second'']\<rparr>,
      \<lparr>pattern = ''(weather|temperature).*in.*([A-Za-z'' @ bs @ ''s]+)'',
       ip_intent = ''command'', ip_confidence = 0.7,
       ip_keywords = [''weather'', ''temperature'']\<rparr>]"

definition educational_patterns :: "intent_pattern list" where
  "educational_patterns =
     [\<lparr>pattern = ''(explain|teach|how|why|what|when|where)'',
       ip_intent = ''educational'', ip_confidence = 0.6,
       ip_keywords = [''explain'', ''teach'', ''how'', ''why'', ''what'']\<rparr>,
      \<lparr>pattern = ''(help me|can you|could you|show me how)'',
       ip_intent = ''educational'', ip_confidence = 0.7,
       ip_keywords = [''help'', ''show me'', ''how'']\<rparr>,
      \<lparr>pattern = ''(i don't understand|confused|help)'',
       ip_intent = ''educational'', ip_confidence = 0.8,
       ip_keywords = [''understand'', ''confused'', ''help'']\<rparr>,
      \<lparr>pattern = ''(solve|work out|figure out|calculate)'',
       ip_intent = ''educational'', ip_confidence = 0.6,
       ip_keywords = [''solve'', ''work out'', ''calculate'']\<rparr>]"

text \<open>The dictionary \<open>best_match\<close> of \<open>_check_patterns\<close>.\<close>

record best_match =
  bm_confidence :: rat
  bm_pattern :: "string option"
  bm_keywords :: "string list"

text \<open>
  The confidence that one pattern gives to the text: the body of the loop of
  \<open>_check_patterns\<close> up to the comparison with the best match so far. The quotient by
  \<open>len(pattern_obj.keywords)\<close> is the one place where the loop can raise.
\<close>

definition pattern_confidence ::
    "(string \<Rightarrow> string \<Rightarrow> bool) \<Rightarrow> string \<Rightarrow> intent_pattern \<Rightarrow> py_error + rat" where
  "pattern_confidence re_search text pattern_obj =
     (if re_search (pattern pattern_obj) text then Inr (ip_confidence pattern_obj)
      else
        (let keyword_matches =
               length (filter (\<lambda>keyword. contains keyword text) (ip_keywords pattern_obj)) in
         if keyword_matches > 0 then
           (if length (ip_keywords pattern_obj) = 0 then Inl ZeroDivisionError
            else Inr ((of_nat keyword_matches / of_nat (length (ip_keywords pattern_obj))) * 0.5))
         else Inr 0.0))"

fun check_patterns_from ::
    "(string \<Rightarrow> string \<Rightarrow> bool) \<Rightarrow> string \<Rightarrow> intent_pattern list \<Rightarrow> best_match \<Rightarrow>
     py_error + best_match" where
  "check_patterns_from re_search text [] best = Inr best"
| "check_patterns_from re_search text (pattern_obj # rest) best =
     (case pattern_confidence re_search text pattern_obj of
        Inl e \<Rightarrow> Inl e
      | Inr c \<Rightarrow>
          check_patterns_from re_search text rest
            (if c > bm_confidence best
             then best\<lparr>bm_confidence := c, bm_pattern := Some (pattern pattern_obj),
                       bm_keywords := ip_keywords pattern_obj\<rparr>
             else best))"

definition check_patterns ::
    "(string \<Rightarrow> string \<Rightarrow> bool) \<Rightarrow> string \<Rightarrow> intent_pattern list \<Rightarrow> py_error + best_match" where
  "check_patterns re_search text patterns =
     check_patterns_from re_search text patterns
       \<lparr>bm_confidence = 0.0, bm_pattern = None, bm_keywords = []\<rparr>"

text \<open>
  \<open>str.strip()\<close> removes the white space at both ends: the characters for which
  \<open>str.isspace\<close> holds, of codes 9 to 13, 28 to 32, 133 and 160.
\<close>

definition is_space :: "char \<Rightarrow> bool" where
  "is_space c \<longleftrightarrow>
     c \<in> set [CHR 0x09, CHR 0x0A, CHR 0x0B, CHR 0x0C, CHR 0x0D,
               CHR 0x1C, CHR 0x1D, CHR 0x1E, CHR 0x1F, CHR 0x20, CHR 0x85, CHR 0xA0]"

definition strip :: "string \<Rightarrow> string" where
  "strip s = rev (dropWhile is_space (rev (dropWhile is_space s)))"

record intent_result =
  intent :: string
  confidence :: rat
  matched_pattern :: "string option"
  ir_keywords :: "string list"
  original_text :: string

definition classify_intent ::
    "(string \<Rightarrow> string \<Rightarrow> bool) \<Rightarrow> string \<Rightarrow> py_error + intent_result" where
  "classify_intent re_search text =
     (let text_lower = strip (lower text) in
      case check_patterns re_search text_lower command_patterns of
        Inl e \<Rightarrow> Inl e
      | Inr command_result \<Rightarrow>
          (if bm_confidence command_result > 0.6 then
             Inr \<lparr>intent = ''command'', confidence = bm_confidence command_result,
                  matched_pattern = bm_pattern command_result,
                  ir_keywords = bm_keywords command_result, original_text = text\<rparr>
           else
             (case check_patterns re_search text_lower educational_patterns of
                Inl e \<Rightarrow> Inl e
              | Inr educational_result \<Rightarrow>
                  (if bm_confidence educational_result > 0.5 then
                     Inr \<lparr>intent = ''educational'', confidence = bm_confidence educational_result,
                          matched_pattern = bm_pattern educational_result,
                          ir_keywords = bm_keywords educational_result, original_text = text\<rparr>
                   else
                     Inr \<lparr>intent = ''educational'', confidence = 0.5, matched_pattern = None,
                          ir_keywords = [], original_text = text\<rparr>))))"

subsection \<open>A matcher for the patterns of the two tables\<close>

text \<open>
  To run the classifier on a text, \<open>re_search\<close> is instantiated by a matcher for the
  regular expressions that the tables use: alternatives of words, \<open>.*\<close>, \<open>\d+\<close> and
  \<open>[A-Za-z\s]+\<close>. It works with derivatives; \<open>search\<close> looks for a match that starts
  at any position, as \<open>re.search\<close> does.
\<close>

datatype atom = Ch char | Dot | Digit | Letter_or_space

datatype regex = Zero | Eps | Atom atom | Seq regex regex | Alt regex regex | Star regex

definition atom_matches :: "atom \<Rightarrow> char \<Rightarrow> bool" where
  "atom_matches a c =
     (case a of
        Ch d \<Rightarrow> c = d
      | Dot \<Rightarrow> c \<noteq> CHR 0x0A
      | Digit \<Rightarrow> c \<in> set ''0123456789''
      | Letter_or_space \<Rightarrow>
          c \<in> set ''ABCDEFGHIJKLMNOPQRSTUVWXYZabcdefghijklmnopqrstuvwxyz'' \<or> is_space c)"

fun nullable :: "regex \<Rightarrow> bool" where
  "nullable Zero = False"
| "nullable Eps = True"
| "nullable (Atom a) = False"
| "nullable (Seq r s) = (nullable r \<and> nullable s)"
| "nullable (Alt r s) = (nullable r \<or> nullable s)"
| "nullable (Star r) = True"

fun seq :: "regex \<Rightarrow> regex \<Rightarrow> regex" where
  "seq Zero s = Zero"
| "seq Eps s = s"
| "seq r s = Seq r s"

fun alt :: "regex \<Rightarrow> regex \<Rightarrow> regex" where
  "alt Zero s = s"
| "alt r Zero = r"
| "alt r s = Alt r s"

fun deriv :: "char \<Rightarrow> regex \<Rightarrow> regex" where
  "deriv c Zero = Zero"
| "deriv c Eps = Zero"
| "deriv c (Atom a) = (if atom_matches a c then Eps else Zero)"
| "deriv c (Seq r s) =
     (if nullable r then alt (seq (deriv c r) s) (deriv c s) else seq (deriv c r) s)"
| "deriv c (Alt r s) = alt (deriv c r) (deriv c s)"
| "deriv c (Star r) = seq (deriv c r) (Star r)"

fun matches_prefix :: "regex \<Rightarrow> string \<Rightarrow> bool" where
  "matches_prefix r [] = nullable r"
| "matches_prefix r (c # cs) = (nullable r \<or> matches_prefix (deriv c r) cs)"

fun search :: "regex \<Rightarrow> string \<Rightarrow> bool" where
  "search r [] = nullable r"
| "search r (c # cs) = (matches_prefix r (c # cs) \<or> search r cs)"

definition lit :: "string \<Rightarrow> regex" where
  "lit s = foldr (\<lambda>c r. Seq (Atom (Ch c)) r) s Eps"

definition alts :: "string list \<Rightarrow> regex" where
  "alts ws = foldr (\<lambda>w r. Alt (lit w) r) ws Zero"

definition then_any :: "regex \<Rightarrow> regex \<Rightarrow> regex" where
  "then_any r s = Seq r (Seq (Star (Atom Dot)) s)"

definition digits :: regex where
  "digits = Seq (Atom Digit) (Star (Atom Digit))"

text \<open>The patterns of \<open>command_patterns\<close> and \<open>educational_patterns\<close>, in that order.\<close>

definition compiled_patterns :: "regex list" where
  "compiled_patterns =
     [then_any (alts [''turn on'', ''start'', ''open'', ''activate'', ''enable''])
        (alts [''camera'', ''cam'']),
      then_any (alts [''turn off'', ''stop'', ''close'', ''deactivate'', ''disable''])
        (alts [''camera'', ''cam'']),
      then_any (alts [''take'', ''capture''])
        (alts [''photo'', ''picture'', ''image'', ''snapshot'']),
      then_any (alts [''add'', ''plus'', ''+'']) (then_any digits digits),
      then_any (alts [''subtract'', ''minus'', ''-'']) (then_any digits digits),
      then_any (alts [''multiply'', ''times'', ''*'']) (then_any digits digits),
      then_any (alts [''divide'', ''divided by'', ''/'']) (then_any digits digits),
      then_any (alts [''clear'', ''clean'', ''erase'', ''reset''])
        (alts [''board'', ''screen'', ''canvas'']),
      then_any (alts [''draw'', ''show me'', ''display'']) (alts [''apple'', ''apples'']),
      then_any (alts [''draw'', ''show me'', ''display'']) (alts [''circle'', ''circles'']),
      then_any (alts [''set'', ''start''])
        (then_any (alts [''timer'', ''alarm''])
           (then_any digits (alts [''minute'', ''second'']))),
      then_any (alts [''weather'', ''temperature''])
        (then_any (lit ''in'') (Seq (Atom Letter_or_space) (Star (Atom Letter_or_space)))),
      alts [''explain'', ''teach'', ''how'', ''why'', ''what'', ''when'', ''where''],
      alts [''help me'', ''can you'', ''could you'', ''show me how''],
      alts [''i don't understand'', ''confused'', ''help''],
      alts [''solve'', ''work out'', ''figure out'', ''calculate'']]"

definition re_search_compiled :: "string \<Rightarrow> string \<Rightarrow> bool" where
  "re_search_compiled p text =
     (case map_of (zip (map pattern (command_patterns @ educational_patterns))
                       compiled_patterns) p of
        None \<Rightarrow> False
      | Some r \<Rightarrow> search r text)"

section \<open>The dispatch of \<open>core_agent.py\<close>\<close>

text \<open>
  \<open>process_text_input\<close> ends in one of three calls: \<open>_handle_command\<close>,
  \<open>_handle_educational_query\<close> (the path to the language model), or, when the
  classification raises, \<open>_create_error_response\<close>. The model returns the call made.
\<close>

datatype route =
    Handle_command string intent_result
  | Handle_educational_query string intent_result
  | Create_error_response py_error

definition process_text_input :: "(string \<Rightarrow> string \<Rightarrow> bool) \<Rightarrow> string \<Rightarrow> route" where
  "process_text_input re_search text =
     (case classify_intent re_search text of
        Inl e \<Rightarrow> Create_error_response e
      | Inr intent_result \<Rightarrow>
          (let intent_type = intent intent_result;
               confidence = confidence intent_result in
           if intent_type = ''command'' \<and> confidence > 0.7
           then Handle_command text intent_result
           else Handle_educational_query text intent_result))"

section \<open>\<open>commands/math_commands.py\<close>\<close>

subsection \<open>Numbers\<close>

text \<open>
  The numbers of a command are Python integers and floats. Integers are exact (the
  limit that an interpreter may put on the digits of \<open>str(n)\<close> is left out). The
  float arithmetic of the machine is a parameter of the model: a type \<open>'f\<close> of floats
  with the operations that the handlers apply to them,
  \<^item> \<open>f_of_int\<close>: the float of an integer in mixed arithmetic, \<open>None\<close> when Python
    raises \<open>OverflowError\<close>;
  \<^item> \<open>f_add\<close>, \<open>f_sub\<close>, \<open>f_mul\<close>: \<open>+\<close>, \<open>-\<close>, \<open>*\<close> on floats, which never raise;
  \<^item> \<open>f_div\<close>: \<open>/\<close> on floats for a divisor that is not zero;
  \<^item> \<open>i_div\<close>: \<open>/\<close> on two integers for a divisor that is not zero, \<open>None\<close> for
    \<open>OverflowError\<close>;
  \<^item> \<open>f_trunc\<close>: \<open>int(x)\<close>, \<open>None\<close> for an infinity (\<open>OverflowError\<close>) and for a NaN
    (\<open>ValueError\<close>, told by \<open>f_is_nan\<close>);
  \<^item> \<open>f_eq_int\<close>, \<open>f_le_int\<close>, \<open>f_less_int\<close>, \<open>int_less_f\<close>, \<open>f_less\<close>: the
    comparisons \<open>x == n\<close>, \<open>x <= n\<close>, \<open>x < n\<close>, \<open>n < x\<close> and \<open>x < y\<close>;
  \<^item> \<open>f_round2\<close>: \<open>round(x, 2)\<close>; \<open>f_str\<close>: \<open>str(x)\<close>.
  The division by a zero, which raises \<open>ZeroDivisionError\<close>, is written out in
  \<open>py_truediv\<close>.
\<close>

datatype 'f number = PyInt int | PyFloat 'f

record 'f float_ops =
  f_of_int :: "int \<Rightarrow> 'f option"
  f_add :: "'f \<Rightarrow> 'f \<Rightarrow> 'f"
  f_sub :: "'f \<Rightarrow> 'f \<Rightarrow> 'f"
  f_mul :: "'f \<Rightarrow> 'f \<Rightarrow> 'f"
  f_div :: "'f \<Rightarrow> 'f \<Rightarrow> 'f"
  i_div :: "int \<Rightarrow> int \<Rightarrow> 'f option"
  f_trunc :: "'f \<Rightarrow> int option"
  f_is_nan :: "'f \<Rightarrow> bool"
  f_eq_int :: "'f \<Rightarrow> int \<Rightarrow> bool"
  f_le_int :: "'f \<Rightarrow> int \<Rightarrow> bool"
  f_less :: "'f \<Rightarrow> 'f \<Rightarrow> bool"
  f_less_int :: "'f \<Rightarrow> int \<Rightarrow> bool"
  int_less_f :: "int \<Rightarrow> 'f \<Rightarrow> bool"
  f_round2 :: "'f \<Rightarrow> 'f"
  f_str :: "'f \<Rightarrow> string"

definition py_float :: "'f float_ops \<Rightarrow> 'f number \<Rightarrow> py_error + 'f" where
  "py_float ops v =
     (case v of
        PyFloat f \<Rightarrow> Inr f
      | PyInt a \<Rightarrow> (case f_of_int ops a of None \<Rightarrow> Inl OverflowError | Some f \<Rightarrow> Inr f))"

definition py_arith ::
    "(int \<Rightarrow> int \<Rightarrow> int) \<Rightarrow> ('f \<Rightarrow> 'f \<Rightarrow> 'f) \<Rightarrow> 'f float_ops \<Rightarrow> 'f number \<Rightarrow> 'f number \<Rightarrow>
     py_error + 'f number" where
  "py_arith int_op float_op ops v w =
     (case (v, w) of
        (PyInt a, PyInt b) \<Rightarrow> Inr (PyInt (int_op a b))
      | _ \<Rightarrow>
          (case py_float ops v of
             Inl e \<Rightarrow> Inl e
           | Inr f \<Rightarrow>
               (case py_float ops w of
                  Inl e \<Rightarrow> Inl e
                | Inr g \<Rightarrow> Inr (PyFloat (float_op f g)))))"

definition py_add :: "'f float_ops \<Rightarrow> 'f number \<Rightarrow> 'f number \<Rightarrow> py_error + 'f number" where
  "py_add ops = py_arith (+) (f_add ops) ops"

definition py_sub :: "'f float_ops \<Rightarrow> 'f number \<Rightarrow> 'f number \<Rightarrow> py_error + 'f number" where
  "py_sub ops = py_arith (-) (f_sub ops) ops"

definition py_mul :: "'f float_ops \<Rightarrow> 'f number \<Rightarrow> 'f number \<Rightarrow> py_error + 'f number" where
  "py_mul ops = py_arith (*) (f_mul ops) ops"

text \<open>\<open>v == n\<close>, \<open>v <= n\<close> for an integer \<open>n\<close>, and \<open>v > w\<close>.\<close>

definition py_eq_int :: "'f float_ops \<Rightarrow> 'f number \<Rightarrow> int \<Rightarrow> bool" where
  "py_eq_int ops v n = (case v of PyInt a \<Rightarrow> a = n | PyFloat f \<Rightarrow> f_eq_int ops f n)"

definition py_le_int :: "'f float_ops \<Rightarrow> 'f number \<Rightarrow> int \<Rightarrow> bool" where
  "py_le_int ops v n = (case v of PyInt a \<Rightarrow> a \<le> n | PyFloat f \<Rightarrow> f_le_int ops f n)"

definition py_gt :: "'f float_ops \<Rightarrow> 'f number \<Rightarrow> 'f number \<Rightarrow> bool" where
  "py_gt ops v w =
     (case (v, w) of
        (PyInt a, PyInt b) \<Rightarrow> a > b
      | (PyInt a, PyFloat g) \<Rightarrow> f_less_int ops g a
      | (PyFloat f, PyInt b) \<Rightarrow> int_less_f ops b f
      | (PyFloat f, PyFloat g) \<Rightarrow> f_less ops g f)"

text \<open>
  \<open>v / w\<close>. Two integers are tested for a zero divisor first; with a float among
  them the integer is converted first.
\<close>

definition py_truediv :: "'f float_ops \<Rightarrow> 'f number \<Rightarrow> 'f number \<Rightarrow> py_error + 'f number" where
  "py_truediv ops v w =
     (case (v, w) of
        (PyInt a, PyInt b) \<Rightarrow>
          (if b = 0 then Inl ZeroDivisionError
           else (case i_div ops a b of None \<Rightarrow> Inl OverflowError | Some q \<Rightarrow> Inr (PyFloat q)))
      | _ \<Rightarrow>
          (case py_float ops v of
             Inl e \<Rightarrow> Inl e
           | Inr f \<Rightarrow>
               (case py_float ops w of
                  Inl e \<Rightarrow> Inl e
                | Inr g \<Rightarrow>
                    (if py_eq_int ops w 0 then Inl ZeroDivisionError
                     else Inr (PyFloat (f_div ops f g))))))"

text \<open>\<open>int(v)\<close>, \<open>str(v)\<close> and \<open>str(int(v) if v == int(v) else v)\<close>.\<close>

definition py_int_of :: "'f float_ops \<Rightarrow> 'f number \<Rightarrow> py_error + int" where
  "py_int_of ops v =
     (case v of
        PyInt a \<Rightarrow> Inr a
      | PyFloat f \<Rightarrow>
          (case f_trunc ops f of
             Some i \<Rightarrow> Inr i
           | None \<Rightarrow> Inl (if f_is_nan ops f then ValueError else OverflowError)))"

definition py_str :: "'f float_ops \<Rightarrow> 'f number \<Rightarrow> string" where
  "py_str ops v = (case v of PyInt a \<Rightarrow> str_int a | PyFloat f \<Rightarrow> f_str ops f)"

definition py_str_whole :: "'f float_ops \<Rightarrow> 'f number \<Rightarrow> py_error + string" where
  "py_str_whole ops v =
     (case py_int_of ops v of
        Inl e \<Rightarrow> Inl e
      | Inr i \<Rightarrow> Inr (if py_eq_int ops v i then str_int i else py_str ops v))"

text \<open>
  A loop \<open>for num in nums: result = result op num\<close>, which stops at the first
  operation that raises; \<open>max\<close> of a list with a first element.
\<close>

fun py_reduce ::
    "('f number \<Rightarrow> 'f number \<Rightarrow> py_error + 'f number) \<Rightarrow> 'f number \<Rightarrow> 'f number list \<Rightarrow>
     py_error + 'f number" where
  "py_reduce f acc [] = Inr acc"
| "py_reduce f acc (num # nums) =
     (case f acc num of
        Inl e \<Rightarrow> Inl e
      | Inr acc' \<Rightarrow> py_reduce f acc' nums)"

definition py_sum :: "'f float_ops \<Rightarrow> 'f number list \<Rightarrow> py_error + 'f number" where
  "py_sum ops nums = py_reduce (py_add ops) (PyInt 0) nums"

definition py_max :: "'f float_ops \<Rightarrow> 'f number \<Rightarrow> 'f number list \<Rightarrow> 'f number" where
  "py_max ops first rest = fold (\<lambda>item best. if py_gt ops item best then item else best) rest first"

text \<open>\<open>sep.join(parts)\<close>\<close>

fun join :: "string \<Rightarrow> string list \<Rightarrow> string" where
  "join sep [] = []"
| "join sep [part] = part"
| "join sep (part # part2 # parts) = part @ sep @ join sep (part2 # parts)"

subsection \<open>The table of grades and the result of a command\<close>

record approach =
  max_numbers :: int
  use_objects :: bool
  simple_language :: bool
  visual_heavy :: bool

definition third_grade :: approach where
  "third_grade =
     \<lparr>max_numbers = 1000, use_objects = False, simple_language = False, visual_heavy = False\<rparr>"

definition grade_approaches :: "(string \<times> approach) list" where
  "grade_approaches =
     [(''kindergarten'',
       \<lparr>max_numbers = 10, use_objects = True, simple_language = True, visual_heavy = True\<rparr>),
      (''first_grade'',
       \<lparr>max_numbers = 20, use_objects = True, simple_language = True, visual_heavy = True\<rparr>),
      (''second_grade'',
       \<lparr>max_numbers = 100, use_objects = False, simple_language = True, visual_heavy = True\<rparr>),
      (''third_grade'', third_grade),
      (''fourth_grade'',
       \<lparr>max_numbers = 10000, use_objects = False, simple_language = False, visual_heavy = False\<rparr>),
      (''fifth_grade'',
       \<lparr>max_numbers = 100000, use_objects = False, simple_language = False, visual_heavy = False\<rparr>),
      (''sixth_grade'',
       \<lparr>max_numbers = 1000000, use_objects = False, simple_language = False, visual_heavy = False\<rparr>)]"

text \<open>\<open>self.grade_approaches.get(grade_level, self.grade_approaches["third_grade"])\<close>\<close>

definition get_approach :: "string \<Rightarrow> approach" where
  "get_approach grade =
     (case map_of grade_approaches grade of None \<Rightarrow> third_grade | Some a \<Rightarrow> a)"

text \<open>
  An element of a scene is a dictionary with the keys of a text or those of an apple;
  a key that the element does not have is \<open>None\<close>. The signs of multiplication and of
  division are the characters of code 215 and 247.
\<close>

record scene_item =
  item_id :: string
  item_type :: string
  pos_x :: int
  pos_y :: int
  item_text :: "string option"
  font_size :: "int option"
  font_family :: "string option"
  item_count :: "int option"

definition text_item :: "string \<Rightarrow> int \<Rightarrow> string \<Rightarrow> scene_item" where
  "text_item ident xpos txt =
     \<lparr>item_id = ident, item_type = ''text'', pos_x = xpos, pos_y = 150,
      item_text = Some txt, font_size = Some 32, font_family = Some ''Arial'',
      item_count = None\<rparr>"

definition apple_item :: "string \<Rightarrow> int \<Rightarrow> int \<Rightarrow> scene_item" where
  "apple_item ident xpos ypos =
     \<lparr>item_id = ident, item_type = ''apple'', pos_x = xpos, pos_y = ypos,
      item_text = None, font_size = None, font_family = None, item_count = Some 1\<rparr>"

definition times_sign :: string where
  "times_sign = [CHR 0xD7]"

definition divide_sign :: string where
  "divide_sign = [CHR 0xF7]"

record command_result =
  success :: bool
  response :: string
  scene :: "scene_item list"
  final_answer :: "(string \<times> string) list"

definition failure :: "string \<Rightarrow> command_result" where
  "failure message = \<lparr>success = False, response = message, scene = [], final_answer = []\<rparr>"

subsection \<open>The scenes\<close>

text \<open>
  The loop of the scenes of addition and multiplication,
  \<open>for i, num in enumerate(numbers)\<close>: the number, then the sign unless the number is
  the last. \<open>n\<close> is \<open>len(numbers)\<close>; the result is the elements and the last
  \<open>x_position\<close>.
\<close>

fun infix_items ::
    "'f float_ops \<Rightarrow> string \<Rightarrow> string \<Rightarrow> nat \<Rightarrow> nat \<Rightarrow> int \<Rightarrow> 'f number list \<Rightarrow>
     py_error + (scene_item list \<times> int)" where
  "infix_items ops sign_id sign n i x_position [] = Inr ([], x_position)"
| "infix_items ops sign_id sign n i x_position (num # rest) =
     (case py_str_whole ops num of
        Inl e \<Rightarrow> Inl e
      | Inr txt \<Rightarrow>
          (let item = text_item (''num-'' @ str_int (int i)) x_position txt;
               x1 = x_position + 60;
               between = (if int i < int n - 1
                          then [text_item (sign_id @ str_int (int i)) x1 sign] else []);
               x2 = (if int i < int n - 1 then x1 + 40 else x1)
           in case infix_items ops sign_id sign n (i + 1) x2 rest of
                Inl e \<Rightarrow> Inl e
              | Inr (items, x_last) \<Rightarrow> Inr (item # between @ items, x_last)))"

text \<open>
  The loop of the scenes of subtraction and division,
  \<open>for i, num in enumerate(numbers[1:], 1)\<close>: the sign, then the number.
\<close>

fun prefix_items ::
    "'f float_ops \<Rightarrow> string \<Rightarrow> string \<Rightarrow> nat \<Rightarrow> int \<Rightarrow> 'f number list \<Rightarrow>
     py_error + (scene_item list \<times> int)" where
  "prefix_items ops sign_id sign i x_position [] = Inr ([], x_position)"
| "prefix_items ops sign_id sign i x_position (num # rest) =
     (let sign_item = text_item (sign_id @ str_int (int i)) x_position sign;
          x1 = x_position + 40
      in case py_str_whole ops num of
           Inl e \<Rightarrow> Inl e
         | Inr txt \<Rightarrow>
             (let item = text_item (''num-'' @ str_int (int i)) x1 txt;
                  x2 = x1 + 60
              in case prefix_items ops sign_id sign (i + 1) x2 rest of
                   Inl e \<Rightarrow> Inl e
                 | Inr (items, x_last) \<Rightarrow> Inr (sign_item # item # items, x_last)))"

text \<open>\<open>for i in range(k)\<close>: one apple for each \<open>i\<close>.\<close>

definition apples :: "string \<Rightarrow> int \<Rightarrow> int \<Rightarrow> int \<Rightarrow> scene_item list" where
  "apples id_prefix x_start y_pos k =
     map (\<lambda>i. apple_item (id_prefix @ str_int (int i)) (x_start + int i * 50) y_pos) [0..<nat k]"

definition create_addition_scene ::
    "'f float_ops \<Rightarrow> 'f number list \<Rightarrow> 'f number \<Rightarrow> approach \<Rightarrow> py_error + scene_item list" where
  "create_addition_scene ops numbers result approach =
     (case infix_items ops ''plus-'' ''+'' (length numbers) 0 100 numbers of
        Inl e \<Rightarrow> Inl e
      | Inr (items, x_position) \<Rightarrow>
          (case py_str_whole ops result of
             Inl e \<Rightarrow> Inl e
           | Inr txt \<Rightarrow>
               (let equation = items @ [text_item ''equals'' x_position ''='',
                                        text_item ''result'' (x_position + 40) txt]
                in case numbers of
                     [first, second] \<Rightarrow>
                       (if use_objects approach \<and> py_le_int ops (py_max ops first [second]) 10
                        then
                          (case py_int_of ops first of
                             Inl e \<Rightarrow> Inl e
                           | Inr k1 \<Rightarrow>
                               (case py_int_of ops second of
                                  Inl e \<Rightarrow> Inl e
                                | Inr k2 \<Rightarrow>
                                    Inr (equation @ apples ''apple-group1-'' 100 250 k1
                                           @ apples ''apple-group2-'' (100 + (k1 * 50 + 80)) 250 k2)))
                        else Inr equation)
                   | _ \<Rightarrow> Inr equation)))"

definition create_multiplication_scene ::
    "'f float_ops \<Rightarrow> 'f number list \<Rightarrow> 'f number \<Rightarrow> approach \<Rightarrow> py_error + scene_item list" where
  "create_multiplication_scene ops numbers result approach =
     (case infix_items ops ''times-'' times_sign (length numbers) 0 100 numbers of
        Inl e \<Rightarrow> Inl e
      | Inr (items, x_position) \<Rightarrow>
          (case py_str_whole ops result of
             Inl e \<Rightarrow> Inl e
           | Inr txt \<Rightarrow>
               Inr (items @ [text_item ''equals'' x_position ''='',
                             text_item ''result'' (x_position + 40) txt])))"

definition create_subtraction_scene ::
    "'f float_ops \<Rightarrow> 'f number list \<Rightarrow> 'f number \<Rightarrow> approach \<Rightarrow> py_error + scene_item list" where
  "create_subtraction_scene ops numbers result approach =
     (case numbers of
        [] \<Rightarrow> Inl IndexError
      | first # others \<Rightarrow>
          (case py_str_whole ops first of
             Inl e \<Rightarrow> Inl e
           | Inr txt0 \<Rightarrow>
               (case prefix_items ops ''minus-'' ''-'' 1 (100 + 60) others of
                  Inl e \<Rightarrow> Inl e
                | Inr (items, x_position) \<Rightarrow>
                    (case py_str_whole ops result of
                       Inl e \<Rightarrow> Inl e
                     | Inr txt \<Rightarrow>
                         Inr (text_item ''num-0'' 100 txt0 # items
                                @ [text_item ''equals'' x_position ''='',
                                   text_item ''result'' (x_position + 40) txt])))))"

definition create_division_scene ::
    "'f float_ops \<Rightarrow> 'f number list \<Rightarrow> 'f number \<Rightarrow> approach \<Rightarrow> py_error + scene_item list" where
  "create_division_scene ops numbers result approach =
     (case numbers of
        [] \<Rightarrow> Inl IndexError
      | first # others \<Rightarrow>
          (case py_str_whole ops first of
             Inl e \<Rightarrow> Inl e
           | Inr txt0 \<Rightarrow>
               (case prefix_items ops ''divide-'' divide_sign 1 (100 + 60) others of
                  Inl e \<Rightarrow> Inl e
                | Inr (items, x_position) \<Rightarrow>
                    Inr (text_item ''num-0'' 100 txt0 # items
                           @ [text_item ''equals'' x_position ''='',
                              text_item ''result'' (x_position + 40) (py_str ops result)]))))"

subsection \<open>The explanations\<close>

definition create_addition_explanation ::
    "'f float_ops \<Rightarrow> 'f number list \<Rightarrow> 'f number \<Rightarrow> approach \<Rightarrow> string \<Rightarrow> string" where
  "create_addition_explanation ops numbers result approach grade =
     (let shown = map (py_str ops) numbers; r = py_str ops result in
      if simple_language approach then
        (case numbers of
           [n0, n1] \<Rightarrow>
             ''Let's add '' @ py_str ops n0 @ '' and '' @ py_str ops n1 @ '' together!\<newline>\<newline>''
             @ (if use_objects approach \<and> py_le_int ops (py_max ops n0 [n1]) 10
                then ''Imagine we have '' @ py_str ops n0 @ '' apples and we get ''
                     @ py_str ops n1 @ '' more apples. ''
                     @ ''Now we have '' @ r @ '' apples altogether!\<newline>\<newline>''
                else [])
             @ ''So '' @ py_str ops n0 @ '' + '' @ py_str ops n1 @ '' = '' @ r
         | _ \<Rightarrow>
             ''Let's add all these numbers: '' @ join '', '' shown @ ''.\<newline>\<newline>''
             @ ''When we add them all together, we get '' @ r @ ''.'')
      else
        ''Let's solve '' @ join '' + '' shown @ ''.\<newline>\<newline>''
        @ (if length numbers > 2
           then ''We can add multiple numbers by combining their values step by step.\<newline>\<newline>''
           else [])
        @ ''The sum of '' @ join '' + '' shown @ '' is '' @ r @ ''.'')"

definition create_subtraction_explanation ::
    "'f float_ops \<Rightarrow> 'f number list \<Rightarrow> 'f number \<Rightarrow> approach \<Rightarrow> string \<Rightarrow> py_error + string" where
  "create_subtraction_explanation ops numbers result approach grade =
     (case numbers of
        [] \<Rightarrow> Inl IndexError
      | first_num # other_nums \<Rightarrow>
          (let f = py_str ops first_num; r = py_str ops result;
               others = join '' - '' (map (py_str ops) other_nums) in
           if simple_language approach then
             (case other_nums of
                [n1] \<Rightarrow>
                  Inr (''Let's start with '' @ f @ '' and take away '' @ py_str ops n1 @ ''.\<newline>\<newline>''
                       @ (if use_objects approach \<and> py_le_int ops first_num 10
                          then ''Imagine we have '' @ f @ '' cookies and we eat ''
                               @ py_str ops n1 @ '' of them. ''
                               @ ''How many cookies do we have left? We have '' @ r
                               @ '' cookies!\<newline>\<newline>''
                          else [])
                       @ ''So '' @ f @ '' - '' @ py_str ops n1 @ '' = '' @ r)
              | _ \<Rightarrow>
                  Inr (''Let's start with '' @ f @ '' and subtract the other numbers.\<newline>\<newline>''
                       @ f @ '' - '' @ others @ '' = '' @ r))
           else
             Inr (''Let's calculate '' @ f @ '' - '' @ others @ ''.\<newline>\<newline>''
                  @ ''When we subtract, we find what's left after taking away.\<newline>\<newline>''
                  @ ''The result is '' @ r @ ''.'')))"

definition create_multiplication_explanation ::
    "'f float_ops \<Rightarrow> 'f number list \<Rightarrow> 'f number \<Rightarrow> approach \<Rightarrow> string \<Rightarrow> string" where
  "create_multiplication_explanation ops numbers result approach grade =
     (let r = py_str ops result;
          general =
            ''Let's calculate '' @ join ('' '' @ times_sign @ '' '') (map (py_str ops) numbers)
            @ ''.\<newline>\<newline>''
            @ ''Multiplication gives us the total when we have equal groups.\<newline>\<newline>''
            @ ''The product is '' @ r @ ''.''
      in case numbers of
           [num1, num2] \<Rightarrow>
             (if simple_language approach then
                ''Let's see what '' @ py_str ops num1 @ '' groups of '' @ py_str ops num2
                @ '' looks like!\<newline>\<newline>''
                @ (if use_objects approach \<and> py_le_int ops (py_max ops num1 [num2]) 5
                   then ''Imagine '' @ py_str ops num1 @ '' groups with '' @ py_str ops num2
                        @ '' items in each group.\<newline>''
                        @ ''If we count all the items, we get '' @ r @ ''!\<newline>\<newline>''
                   else [])
                @ ''So '' @ py_str ops num1 @ '' '' @ times_sign @ '' '' @ py_str ops num2
                @ '' = '' @ r
              else general)
         | _ \<Rightarrow> general)"

definition create_division_explanation ::
    "'f float_ops \<Rightarrow> 'f number list \<Rightarrow> 'f number \<Rightarrow> approach \<Rightarrow> string \<Rightarrow> string" where
  "create_division_explanation ops numbers result approach grade =
     (let r = py_str ops result;
          general =
            ''Let's calculate '' @ join ('' '' @ divide_sign @ '' '') (map (py_str ops) numbers)
            @ ''.\<newline>\<newline>''
            @ ''Division helps us find how many equal groups we can make.\<newline>\<newline>''
            @ ''The quotient is '' @ r @ ''.''
      in case numbers of
           [dividend, divisor] \<Rightarrow>
             (if simple_language approach then
                ''Let's share '' @ py_str ops dividend @ '' items equally among ''
                @ py_str ops divisor @ '' groups.\<newline>\<newline>''
                @ (if use_objects approach \<and> py_le_int ops dividend 20 \<and> py_le_int ops divisor 5
                   then ''If we have '' @ py_str ops dividend
                        @ '' cookies and share them equally among '' @ py_str ops divisor
                        @ '' friends, ''
                        @ ''each friend gets '' @ r @ '' cookies.\<newline>\<newline>''
                   else [])
                @ ''So '' @ py_str ops dividend @ '' '' @ divide_sign @ '' '' @ py_str ops divisor
                @ '' = '' @ r
              else general)
         | _ \<Rightarrow> general)"

subsection \<open>The handlers\<close>

text \<open>
  A handler returns its dictionary and the tracker as the handler leaves it, or the
  exception that it raises. Every operation that can raise comes before the first call
  of the tracker, so a handler that raises has not touched the tracker.
  \<open>self.learning_tracker\<close> may be \<open>None\<close>.
\<close>

definition log_progress ::
    "clock \<Rightarrow> learning_tracker option \<Rightarrow> string \<Rightarrow> string \<Rightarrow> string \<Rightarrow> learning_tracker option" where
  "log_progress clk tracker kind input_text solved =
     (case tracker of
        None \<Rightarrow> None
      | Some t \<Rightarrow> Some (log_interaction clk kind input_text solved (mark_topic_encountered clk ''math'' t)))"

definition handle_addition ::
    "'f float_ops \<Rightarrow> clock \<Rightarrow> learning_tracker option \<Rightarrow> 'f number list \<Rightarrow> string \<Rightarrow> string \<Rightarrow>
     py_error + (command_result \<times> learning_tracker option)" where
  "handle_addition ops clk tracker numbers grade input_text =
     (if length numbers < 2 then
        Inr (failure ''I need at least two numbers to add together.'', tracker)
      else
        (case py_sum ops numbers of
           Inl e \<Rightarrow> Inl e
         | Inr result \<Rightarrow>
             (let approach = get_approach grade;
                  explanation = create_addition_explanation ops numbers result approach grade
              in case create_addition_scene ops numbers result approach of
                   Inl e \<Rightarrow> Inl e
                 | Inr items \<Rightarrow>
                     (case py_str_whole ops result of
                        Inl e \<Rightarrow> Inl e
                      | Inr correct_value \<Rightarrow>
                          (let terms = join '' + '' (map (py_str ops) numbers);
                               answer =
                                 [(''correct_value'', correct_value),
                                  (''explanation'',
                                   ''Adding '' @ terms @ '' equals '' @ py_str ops result),
                                  (''feedback_correct'', ''Excellent! You got the addition correct!''),
                                  (''feedback_incorrect'',
                                   ''Not quite. When we add '' @ terms @ '', we get ''
                                   @ py_str ops result @ ''.'')];
                               tracker' =
                                 log_progress clk tracker ''math_addition'' input_text
                                   (''Solved: '' @ terms @ '' = '' @ py_str ops result)
                           in Inr (\<lparr>success = True, response = explanation, scene = items,
                                    final_answer = answer\<rparr>, tracker'))))))"

definition handle_subtraction ::
    "'f float_ops \<Rightarrow> clock \<Rightarrow> learning_tracker option \<Rightarrow> 'f number list \<Rightarrow> string \<Rightarrow> string \<Rightarrow>
     py_error + (command_result \<times> learning_tracker option)" where
  "handle_subtraction ops clk tracker numbers grade input_text =
     (if length numbers < 2 then
        Inr (failure ''I need at least two numbers for subtraction.'', tracker)
      else
        (case numbers of
           [] \<Rightarrow> Inl IndexError
         | first # others \<Rightarrow>
             (case py_reduce (py_sub ops) first others of
                Inl e \<Rightarrow> Inl e
              | Inr result \<Rightarrow>
                  (let approach = get_approach grade
                   in case create_subtraction_explanation ops numbers result approach grade of
                        Inl e \<Rightarrow> Inl e
                      | Inr explanation \<Rightarrow>
                          (case create_subtraction_scene ops numbers result approach of
                             Inl e \<Rightarrow> Inl e
                           | Inr items \<Rightarrow>
                               (case py_str_whole ops result of
                                  Inl e \<Rightarrow> Inl e
                                | Inr correct_value \<Rightarrow>
                                    (let answer =
                                           [(''correct_value'', correct_value),
                                            (''explanation'',
                                             ''Subtracting gives us '' @ py_str ops result),
                                            (''feedback_correct'', ''Great job with subtraction!''),
                                            (''feedback_incorrect'',
                                             ''The correct answer is '' @ py_str ops result @ ''.'')];
                                         tracker' =
                                           log_progress clk tracker ''math_subtraction'' input_text
                                             (''Solved: '' @ py_str ops first @ '' - ''
                                              @ join '' - '' (map (py_str ops) others)
                                              @ '' = '' @ py_str ops result)
                                     in Inr (\<lparr>success = True, response = explanation,
                                              scene = items, final_answer = answer\<rparr>,
                                             tracker'))))))))"

definition handle_multiplication ::
    "'f float_ops \<Rightarrow> clock \<Rightarrow> learning_tracker option \<Rightarrow> 'f number list \<Rightarrow> string \<Rightarrow> string \<Rightarrow>
     py_error + (command_result \<times> learning_tracker option)" where
  "handle_multiplication ops clk tracker numbers grade input_text =
     (if length numbers < 2 then
        Inr (failure ''I need at least two numbers to multiply.'', tracker)
      else
        (case py_reduce (py_mul ops) (PyInt 1) numbers of
           Inl e \<Rightarrow> Inl e
         | Inr result \<Rightarrow>
             (let approach = get_approach grade;
                  explanation = create_multiplication_explanation ops numbers result approach grade
              in case create_multiplication_scene ops numbers result approach of
                   Inl e \<Rightarrow> Inl e
                 | Inr items \<Rightarrow>
                     (case py_str_whole ops result of
                        Inl e \<Rightarrow> Inl e
                      | Inr correct_value \<Rightarrow>
                          (let answer =
                                 [(''correct_value'', correct_value),
                                  (''explanation'', ''Multiplying gives us '' @ py_str ops result),
                                  (''feedback_correct'', ''Perfect multiplication!''),
                                  (''feedback_incorrect'',
                                   ''The correct answer is '' @ py_str ops result @ ''.'')];
                               tracker' =
                                 log_progress clk tracker ''math_multiplication'' input_text
                                   (''Solved: ''
                                    @ join ('' '' @ times_sign @ '' '') (map (py_str ops) numbers)
                                    @ '' = '' @ py_str ops result)
                           in Inr (\<lparr>success = True, response = explanation, scene = items,
                                    final_answer = answer\<rparr>, tracker'))))))"

text \<open>
  \<open>if result == int(result): result = int(result) else: result = round(result, 2)\<close>
\<close>

definition round_quotient :: "'f float_ops \<Rightarrow> 'f number \<Rightarrow> py_error + 'f number" where
  "round_quotient ops result =
     (case py_int_of ops result of
        Inl e \<Rightarrow> Inl e
      | Inr i \<Rightarrow>
          (if py_eq_int ops result i then Inr (PyInt i)
           else (case result of
                   PyInt a \<Rightarrow> Inr (PyInt a)
                 | PyFloat f \<Rightarrow> Inr (PyFloat (f_round2 ops f)))))"

definition handle_division ::
    "'f float_ops \<Rightarrow> clock \<Rightarrow> learning_tracker option \<Rightarrow> 'f number list \<Rightarrow> string \<Rightarrow> string \<Rightarrow>
     py_error + (command_result \<times> learning_tracker option)" where
  "handle_division ops clk tracker numbers grade input_text =
     (if length numbers < 2 then
        Inr (failure ''I need at least two numbers for division.'', tracker)
      else if list_ex (\<lambda>n. py_eq_int ops n 0) (tl numbers) then
        Inr (failure ''I can't divide by zero. That's undefined in mathematics.'', tracker)
      else
        (case numbers of
           [] \<Rightarrow> Inl IndexError
         | first # others \<Rightarrow>
             (case py_reduce (py_truediv ops) first others of
                Inl e \<Rightarrow> Inl e
              | Inr q \<Rightarrow>
                  (case round_quotient ops q of
                     Inl e \<Rightarrow> Inl e
                   | Inr result \<Rightarrow>
                       (let approach = get_approach grade;
                            explanation =
                              create_division_explanation ops numbers result approach grade
                        in case create_division_scene ops numbers result approach of
                             Inl e \<Rightarrow> Inl e
                           | Inr items \<Rightarrow>
                               (let answer =
                                      [(''correct_value'', py_str ops result),
                                       (''explanation'', ''Dividing gives us '' @ py_str ops result),
                                       (''feedback_correct'', ''Excellent division work!''),
                                       (''feedback_incorrect'',
                                        ''The correct answer is '' @ py_str ops result @ ''.'')];
                                    tracker' =
                                      log_progress clk tracker ''math_division'' input_text
                                        (''Solved: '' @ py_str ops first @ '' '' @ divide_sign @ '' ''
                                         @ join ('' '' @ divide_sign @ '' '') (map (py_str ops) others)
                                         @ '' = '' @ py_str ops result)
                                in Inr (\<lparr>success = True, response = explanation, scene = items,
                                         final_answer = answer\<rparr>, tracker')))))))"

subsection \<open>An instance of the floats\<close>

text \<open>
  To run the handlers, the floats are instantiated by the rationals with exact
  arithmetic. This is what the floats of the machine compute as long as every result is
  a float itself and is printed with at most 16 digits after the point; \<open>round(x, 2)\<close>
  rounds a tie to the even neighbour.
\<close>

fun fraction_digits :: "nat \<Rightarrow> rat \<Rightarrow> string" where
  "fraction_digits 0 x = []"
| "fraction_digits (Suc n) x =
     (if x = 0 then []
      else (''0123456789'' ! nat \<lfloor>x * 10\<rfloor>) # fraction_digits n (x * 10 - of_int \<lfloor>x * 10\<rfloor>))"

definition str_rat :: "rat \<Rightarrow> string" where
  "str_rat x =
     (let a = \<bar>x\<bar>; whole = \<lfloor>a\<rfloor>; digits = fraction_digits 16 (a - of_int whole)
      in (if x < 0 then ''-'' else []) @ str_int whole @ ''.''
         @ (if digits = [] then ''0'' else digits))"

definition round_half_even :: "rat \<Rightarrow> int" where
  "round_half_even x =
     (let f = \<lfloor>x\<rfloor>; d = x - of_int f
      in if d < 1 / 2 then f else if d > 1 / 2 then f + 1 else if even f then f else f + 1)"

definition exact_floats :: "rat float_ops" where
  "exact_floats =
     \<lparr>f_of_int = (\<lambda>n. Some (of_int n)), f_add = (+), f_sub = (-), f_mul = (*), f_div = (/),
      i_div = (\<lambda>a b. Some (of_int a / of_int b)), f_trunc = (\<lambda>x. Some (py_int x)),
      f_is_nan = (\<lambda>x. False), f_eq_int = (\<lambda>x n. x = of_int n), f_le_int = (\<lambda>x n. x \<le> of_int n),
      f_less = (<), f_less_int = (\<lambda>x n. x < of_int n), int_less_f = (\<lambda>n x. of_int n < x),
      f_round2 = (\<lambda>x. of_int (round_half_even (x * 100)) / 100), f_str = str_rat\<rparr>"

section \<open>Decimal texts\<close>

lemma digit_value_nth: "d < 10 \<Longrightarrow> digit_value (''0123456789'' ! d) = d"
proof -
  assume "d < 10"
  then have "d \<in> {0, 1, 2, 3, 4, 5, 6, 7, 8, 9}" by auto
  then show ?thesis by (auto simp: digit_value_def)
qed

lemma decimal_value_snoc: "decimal_value (s @ [c]) = 10 * decimal_value s + digit_value c"
  by (simp add: decimal_value_def)

lemma decimal_value_str_nat: "decimal_value (str_nat n) = n"
proof (induction n rule: str_nat.induct)
  case (1 n)
  show ?case
  proof (cases "n < 10")
    case True
    then show ?thesis
      by (subst str_nat.simps) (simp add: decimal_value_def digit_value_nth)
  next
    case False
    have "decimal_value (str_nat n) = 10 * decimal_value (str_nat (n div 10)) + digit_value (''0123456789'' ! (n mod 10))"
      using False by (subst str_nat.simps) (simp add: decimal_value_snoc)
    also have "\<dots> = 10 * (n div 10) + n mod 10"
      using "1.IH" [OF False] by (simp add: digit_value_nth)
    finally show ?thesis by simp
  qed
qed

lemma str_nat_not_minus: "str_nat n \<noteq> [] \<and> hd (str_nat n) \<noteq> CHR ''-''"
proof (induction n rule: str_nat.induct)
  case (1 n)
  show ?case
  proof (cases "n < 10")
    case True
    then have "n \<in> {0, 1, 2, 3, 4, 5, 6, 7, 8, 9}" by auto
    then show ?thesis by (subst (1 2) str_nat.simps) auto
  next
    case False
    with "1.IH" show ?thesis by (subst (1 2) str_nat.simps) simp
  qed
qed

lemma int_value_str_int: "int_value (str_int i) = i"
proof (cases "i < 0")
  case True
  then show ?thesis by (simp add: int_value_def str_int_def decimal_value_str_nat)
next
  case False
  obtain c cs where s: "str_nat (nat i) = c # cs" and c: "c \<noteq> CHR ''-''"
    using str_nat_not_minus [of "nat i"] by (cases "str_nat (nat i)") auto
  have "int (decimal_value (c # cs)) = i"
    using decimal_value_str_nat [of "nat i"] False by (simp add: s)
  then show ?thesis
    using False by (simp add: int_value_def str_int_def s c)
qed

section \<open>Properties of the learning tracker\<close>

lemma get_topic_knowledge_no_profile:
  "student_profile self = None \<Longrightarrow> get_topic_knowledge self topic = None"
  by (simp add: get_topic_knowledge_def)



subsection \<open>Persistence of the profile\<close>

lemma student_profile_save [simp]:
  "student_profile (save_student_profile self) = student_profile self"
  by (simp add: save_student_profile_def split: option.splits)

lemma student_profile_save_temp [simp]:
  "student_profile (save_temp_progress self) = student_profile self"
  by (simp add: save_temp_progress_def save_temp_progress_data_def Let_def)

lemma save_student_profile_no_profile:
  "student_profile self = None \<Longrightarrow> save_student_profile self = self"
  by (simp add: save_student_profile_def)

lemma save_then_load:
  "student_profile self = Some p \<Longrightarrow>
   student_profile (init (profile_file (save_student_profile self)) sf tf k) = Some p"
  by (simp add: init_def load_student_profile_def save_student_profile_def)

lemma init_unreadable:
  "student_profile (init Unreadable sf tf k) = None"
  by (simp add: init_def load_student_profile_def)

text \<open>
  Claim C4. The profile is one JSON record. The constructor leaves the tracker without a
  profile when there is no profile file and takes the profile from the file when there is
  one; a save writes the whole profile held in memory, and what the file held before has
  no influence on what it holds afterwards.
\<close>

theorem profile_saved_wholesale:
  "(pf = Missing \<longrightarrow> student_profile (init pf sf tf k) = None) \<and>
   (\<forall>p. pf = Holds p \<longrightarrow> student_profile (init pf sf tf k) = Some p) \<and>
   (\<forall>p. student_profile self = Some p \<longrightarrow>
        profile_file (save_student_profile self) = Holds p \<and>
        (\<forall>old. save_student_profile (self\<lparr>profile_file := old\<rparr>) = save_student_profile self))"
  by (simp add: init_def load_student_profile_def save_student_profile_def)

theorem profile_saved_wholesale_witness:
  "student_profile (init (Holds example_profile) Missing Missing 0) = Some example_profile \<and>
   student_profile example_tracker = Some example_profile \<and>
   profile_file (save_student_profile (example_tracker\<lparr>profile_file := Unreadable\<rparr>)) =
     Holds example_profile"
proof -
  have h: "student_profile example_tracker = Some example_profile"
    by (simp add: example_tracker_def)
  have s: "student_profile (example_tracker\<lparr>profile_file := Unreadable\<rparr>) = Some example_profile"
    by (simp add: example_tracker_def)
  from profile_saved_wholesale [of "Holds example_profile" Missing Missing 0 example_tracker]
  have a: "student_profile (init (Holds example_profile) Missing Missing 0) = Some example_profile"
    by simp
  from profile_saved_wholesale [of Missing Missing Missing 0
      "example_tracker\<lparr>profile_file := Unreadable\<rparr>"] s
  have b: "profile_file (save_student_profile (example_tracker\<lparr>profile_file := Unreadable\<rparr>)) =
     Holds example_profile"
    by simp
  from a h b show ?thesis by simp
qed

subsection \<open>The session log\<close>



lemma end_current_session_unreadable_log:
  "sessions_file self = Unreadable \<Longrightarrow> sessions_file (end_current_session clk self) = Unreadable"
  by (auto simp: end_current_session_def Let_def save_session_data_def save_student_profile_def
        split: option.splits prod.splits)

lemma end_current_session_closes:
  "current_session (end_current_session clk self) = None"
  by (auto simp: end_current_session_def Let_def split: option.splits)

subsection \<open>Recording an answer\<close>

lemma topics_add_strength [simp]: "topics (add_strength t p) = topics p"
  by (simp add: add_strength_def Let_def)

lemma topics_add_area [simp]: "topics (add_area_for_improvement t p) = topics p"
  by (simp add: add_area_for_improvement_def Let_def)

lemma topics_answer_correct:
  "map_of (topics (fst (answer_correct t tp p))) =
     (map_of (topics p))(t \<mapsto> tp\<lparr>correct_answers := correct_answers tp + 1\<rparr>)"
  by (simp add: answer_correct_def Let_def update_conv')

lemma topics_answer_incorrect:
  "map_of (topics (fst (answer_incorrect t tp p))) =
     (map_of (topics p))(t \<mapsto> tp\<lparr>incorrect_answers := incorrect_answers tp + 1\<rparr>)"
  by (simp add: answer_incorrect_def Let_def update_conv')

lemma ensure_profile_Some: "\<exists>p. student_profile (ensure_profile clk self) = Some p"
  by (simp add: ensure_profile_def create_default_profile_def split: option.splits)

lemma topics_of_ensure_profile: "topics_of (ensure_profile clk self) = topics_of self"
  by (auto simp: topics_of_def ensure_profile_def create_default_profile_def split: option.splits)

lemma ensure_topic_Some:
  "student_profile self = Some p \<Longrightarrow> \<exists>p'. student_profile (ensure_topic clk t self) = Some p'"
  by (simp add: ensure_topic_def create_topic_progress_def ensure_profile_def Let_def)

lemma topics_of_ensure_topic:
  "student_profile self = Some p \<Longrightarrow>
   topics_of (ensure_topic clk t self) =
     (case topics_of self t of
        None \<Rightarrow> (topics_of self)(t \<mapsto> new_topic_progress t (datetime_now clk (clock_reads self))
                                         (datetime_now clk (clock_reads self + 1)))
      | Some _ \<Rightarrow> topics_of self)"
  by (auto simp: topics_of_def ensure_topic_def create_topic_progress_def ensure_profile_def
        Let_def update_conv')

text \<open>
  Claim C5. A call \<open>log_answer_result(topic, is_correct)\<close> during a session adds one to
  \<open>correct_answers\<close> of the topic when the answer is correct and to \<open>incorrect_answers\<close>
  otherwise, leaves the other counter of the topic as it was (a topic new to the profile
  starts at zero), and leaves the progress of every other topic unchanged.
\<close>

theorem log_answer_result_counters:
  assumes "current_session self = Some s"
  shows "\<exists>p'. student_profile (fst (log_answer_result clk topic is_correct self)) = Some p' \<and>
     (let old = (case student_profile self of None \<Rightarrow> Map.empty | Some p \<Rightarrow> map_of (topics p));
          old_correct = (case old topic of None \<Rightarrow> 0 | Some tp \<Rightarrow> correct_answers tp);
          old_incorrect = (case old topic of None \<Rightarrow> 0 | Some tp \<Rightarrow> incorrect_answers tp) in
      (\<exists>tp'. map_of (topics p') topic = Some tp' \<and>
         correct_answers tp' = old_correct + (if is_correct then 1 else 0) \<and>
         incorrect_answers tp' = old_incorrect + (if is_correct then 0 else 1)) \<and>
      (\<forall>other. other \<noteq> topic \<longrightarrow> map_of (topics p') other = old other))"
proof -
  define pm1 where "pm1 =
    (if is_correct
     then (performance_metrics s)\<lparr>pm_correct_answers := pm_correct_answers (performance_metrics s) + 1\<rparr>
     else (performance_metrics s)\<lparr>pm_incorrect_answers := pm_incorrect_answers (performance_metrics s) + 1\<rparr>)"
  define self1 where "self1 = self\<lparr>current_session := Some (s\<lparr>performance_metrics := pm1\<rparr>)\<rparr>"
  define self2 where "self2 = ensure_topic clk topic (ensure_profile clk self1)"
  define k where "k = clock_reads (ensure_profile clk self1)"
  obtain p1 where p1: "student_profile (ensure_profile clk self1) = Some p1"
    using ensure_profile_Some by blast
  obtain p2 where p2: "student_profile self2 = Some p2"
    unfolding self2_def using ensure_topic_Some [OF p1] by blast
  have old: "topics_of self1 = topics_of self"
    by (simp add: topics_of_def self1_def)
  have t2: "topics_of self2 =
     (case topics_of self topic of
        None \<Rightarrow> (topics_of self)(topic \<mapsto>
                  new_topic_progress topic (datetime_now clk k) (datetime_now clk (k + 1)))
      | Some _ \<Rightarrow> topics_of self)"
    unfolding self2_def k_def using topics_of_ensure_topic [OF p1, of clk topic]
    by (cases "topics_of self topic") (simp_all add: topics_of_ensure_profile old)
  have m2: "map_of (topics p2) = topics_of self2"
    by (simp add: topics_of_def p2)
  obtain tp where tp: "map_of (topics p2) topic = Some tp"
    and tpc: "correct_answers tp =
                (case topics_of self topic of None \<Rightarrow> 0 | Some tp \<Rightarrow> correct_answers tp)"
    and tpi: "incorrect_answers tp =
                (case topics_of self topic of None \<Rightarrow> 0 | Some tp \<Rightarrow> incorrect_answers tp)"
    by (cases "topics_of self topic") (simp_all add: m2 t2 new_topic_progress_def)
  have others: "other \<noteq> topic \<Longrightarrow> map_of (topics p2) other = topics_of self other" for other
    by (cases "topics_of self topic") (simp_all add: m2 t2)
  define res where
    "res = (if is_correct then answer_correct topic tp p2 else answer_incorrect topic tp p2)"
  have r: "student_profile (fst (log_answer_result clk topic is_correct self)) = Some (fst res)"
    using assms p2 tp
    by (simp add: log_answer_result_def Let_def pm1_def [symmetric] self1_def [symmetric]
          self2_def [symmetric] res_def [symmetric] split: prod.splits option.splits)
  have m: "map_of (topics (fst res)) =
      (map_of (topics p2))(topic \<mapsto>
         (if is_correct then tp\<lparr>correct_answers := correct_answers tp + 1\<rparr>
          else tp\<lparr>incorrect_answers := incorrect_answers tp + 1\<rparr>))"
    by (simp add: res_def topics_answer_correct topics_answer_incorrect)
  show ?thesis
    using r m tpc tpi others
    by (auto simp: Let_def topics_of_def)
qed

theorem log_answer_result_counters_witness:
  "current_session example_tracker = Some example_session \<and>
   (\<exists>p'. student_profile (fst (log_answer_result example_clock ''math'' True example_tracker)) = Some p' \<and>
      (\<exists>tp'. map_of (topics p') ''math'' = Some tp' \<and>
         correct_answers tp' = 5 \<and> incorrect_answers tp' = 1) \<and>
      map_of (topics p') ''reading'' = None)"
proof -
  have h: "current_session example_tracker = Some example_session"
    by (simp add: example_tracker_def)
  have sp: "student_profile example_tracker = Some example_profile"
    by (simp add: example_tracker_def)
  have m: "map_of (topics example_profile) ''math'' = Some example_math"
    "map_of (topics example_profile) ''reading'' = None"
    by (simp_all add: example_profile_def)
  have c: "correct_answers example_math = 4" "incorrect_answers example_math = 1"
    by (simp_all add: example_math_def)
  from log_answer_result_counters [OF h, of example_clock "''math''" True]
  obtain p' tp' where
    p': "student_profile (fst (log_answer_result example_clock ''math'' True example_tracker)) = Some p'"
    and tp': "map_of (topics p') ''math'' = Some tp'"
      "correct_answers tp' = 5" "incorrect_answers tp' = 1"
    and others: "\<forall>other. other \<noteq> ''math'' \<longrightarrow> map_of (topics p') other = map_of (topics example_profile) other"
    by (auto simp: Let_def sp m c)
  from others have "map_of (topics p') ''reading'' = None"
    by (simp add: m)
  with h p' tp' show ?thesis by simp
qed

lemma log_answer_result_no_session:
  "current_session self = None \<Longrightarrow> log_answer_result clk topic is_correct self = (self, None)"
  by (simp add: log_answer_result_def)

subsection \<open>Strengths and areas for improvement stay apart\<close>



lemma add_strength_moves:
  "distinct (areas_for_improvement p) \<Longrightarrow>
   t \<in> set (strengths (add_strength t p)) \<and> t \<notin> set (areas_for_improvement (add_strength t p))"
  by (auto simp: add_strength_def Let_def)

lemma add_area_moves:
  "distinct (strengths p) \<Longrightarrow>
   t \<in> set (areas_for_improvement (add_area_for_improvement t p)) \<and>
   t \<notin> set (strengths (add_area_for_improvement t p))"
  by (auto simp: add_area_for_improvement_def Let_def)

lemma lists_apart_topics [simp]: "lists_apart (p\<lparr>topics := ts\<rparr>) = lists_apart p"
  by (simp add: lists_apart_def)

lemma counters_nonneg_add_strength [simp]:
  "counters_nonneg (add_strength t p) = counters_nonneg p"
  by (simp add: counters_nonneg_def)

lemma counters_nonneg_add_area [simp]:
  "counters_nonneg (add_area_for_improvement t p) = counters_nonneg p"
  by (simp add: counters_nonneg_def)






lemma profile_ok_session [simp]: "profile_ok (self\<lparr>current_session := x\<rparr>) = profile_ok self"
  by (simp add: profile_ok_def)








section \<open>Properties of the classifier and of the dispatch\<close>

lemma pattern_confidence_total:
  "\<exists>c. pattern_confidence re_search text p = Inr c"
proof (cases "filter (\<lambda>keyword. contains keyword text) (ip_keywords p) = []")
  case True
  then show ?thesis by (simp add: pattern_confidence_def)
next
  case False
  then have "ip_keywords p \<noteq> []" by auto
  then show ?thesis by (simp add: pattern_confidence_def Let_def)
qed

lemma check_patterns_from_total:
  "\<exists>b. check_patterns_from re_search text ps best = Inr b"
proof (induction ps arbitrary: best)
  case Nil
  then show ?case by simp
next
  case (Cons p ps)
  obtain c where c: "pattern_confidence re_search text p = Inr c"
    using pattern_confidence_total by blast
  show ?case using Cons.IH by (simp add: c)
qed

lemma check_patterns_total: "\<exists>b. check_patterns re_search text ps = Inr b"
  by (simp add: check_patterns_def check_patterns_from_total)

text \<open>The best match carries the greatest confidence that a pattern of the table gives.\<close>

lemma check_patterns_from_best:
  "check_patterns_from re_search text ps best = Inr b \<Longrightarrow>
   bm_confidence best \<le> bm_confidence b \<and>
   (\<forall>p \<in> set ps. \<forall>c. pattern_confidence re_search text p = Inr c \<longrightarrow> c \<le> bm_confidence b) \<and>
   (bm_confidence b = bm_confidence best \<or>
    (\<exists>p \<in> set ps. pattern_confidence re_search text p = Inr (bm_confidence b)))"
proof (induction ps arbitrary: best)
  case Nil
  then show ?case by simp
next
  case (Cons p ps)
  obtain c where c: "pattern_confidence re_search text p = Inr c"
    using pattern_confidence_total by blast
  define best' where "best' =
    (if c > bm_confidence best
     then best\<lparr>bm_confidence := c, bm_pattern := Some (pattern p), bm_keywords := ip_keywords p\<rparr>
     else best)"
  have run: "check_patterns_from re_search text ps best' = Inr b"
    using Cons.prems by (simp add: c best'_def)
  have b': "bm_confidence best' = max c (bm_confidence best)"
    by (simp add: best'_def max_def)
  from Cons.IH [OF run] show ?case
    by (auto simp: c b')
qed

lemma check_patterns_best:
  assumes "check_patterns re_search text ps = Inr b"
  shows "(bm_confidence b > x \<longleftrightarrow>
           (\<exists>p \<in> set ps. \<exists>c. pattern_confidence re_search text p = Inr c \<and> c > x)) \<or>
         (x < 0 \<and> bm_confidence b = 0)"
proof -
  from check_patterns_from_best [OF assms [unfolded check_patterns_def]]
  have ge: "0 \<le> bm_confidence b"
    and all: "\<forall>p \<in> set ps. \<forall>c. pattern_confidence re_search text p = Inr c \<longrightarrow> c \<le> bm_confidence b"
    and ex: "bm_confidence b = 0 \<or> (\<exists>p \<in> set ps. pattern_confidence re_search text p = Inr (bm_confidence b))"
    by simp_all
  show ?thesis
  proof (cases "bm_confidence b > x")
    case True
    with ex show ?thesis by (cases "x < 0") auto
  next
    case False
    with all show ?thesis by fastforce
  qed
qed

lemma classify_intent_returns: "\<exists>r. classify_intent re_search text = Inr r"
proof -
  obtain cr where cr: "check_patterns re_search (strip (lower text)) command_patterns = Inr cr"
    using check_patterns_total by blast
  obtain er where er: "check_patterns re_search (strip (lower text)) educational_patterns = Inr er"
    using check_patterns_total by blast
  show ?thesis
    by (simp add: classify_intent_def Let_def cr er)
qed

text \<open>
  Claim C6. \<open>classify_intent\<close> returns for every text and every behaviour of the
  matcher; the intent is \<open>command\<close> or \<open>educational\<close> and the confidence is at least 0.5;
  the intent is \<open>command\<close> exactly when the best match among the command patterns has a
  confidence above 0.6, that is, when some command pattern gives the text a confidence
  above 0.6; and when neither the command patterns exceed 0.6 nor the educational
  patterns 0.5, the result is \<open>educational\<close> with confidence 0.5 and no matched pattern.
\<close>

theorem classify_intent_two_valued:
  "\<exists>r command_result educational_result.
     classify_intent re_search text = Inr r \<and>
     check_patterns re_search (strip (lower text)) command_patterns = Inr command_result \<and>
     check_patterns re_search (strip (lower text)) educational_patterns = Inr educational_result \<and>
     (intent r = ''command'' \<or> intent r = ''educational'') \<and>
     confidence r \<ge> 0.5 \<and>
     (intent r = ''command'' \<longleftrightarrow> bm_confidence command_result > 0.6) \<and>
     (intent r = ''command'' \<longleftrightarrow>
        (\<exists>p \<in> set command_patterns. \<exists>c.
           pattern_confidence re_search (strip (lower text)) p = Inr c \<and> c > 0.6)) \<and>
     (\<not> bm_confidence command_result > 0.6 \<and> \<not> bm_confidence educational_result > 0.5 \<longrightarrow>
        intent r = ''educational'' \<and> confidence r = 0.5 \<and> matched_pattern r = None)"
proof -
  obtain cr where cr: "check_patterns re_search (strip (lower text)) command_patterns = Inr cr"
    using check_patterns_total by blast
  obtain er where er: "check_patterns re_search (strip (lower text)) educational_patterns = Inr er"
    using check_patterns_total by blast
  have best: "bm_confidence cr > 0.6 \<longleftrightarrow>
      (\<exists>p \<in> set command_patterns. \<exists>c.
           pattern_confidence re_search (strip (lower text)) p = Inr c \<and> c > 0.6)"
    using check_patterns_best [OF cr, of "0.6"] by simp
  have "\<exists>r. classify_intent re_search text = Inr r \<and>
     (intent r = ''command'' \<or> intent r = ''educational'') \<and>
     confidence r \<ge> 0.5 \<and>
     (intent r = ''command'' \<longleftrightarrow> bm_confidence cr > 0.6) \<and>
     (\<not> bm_confidence cr > 0.6 \<and> \<not> bm_confidence er > 0.5 \<longrightarrow>
        intent r = ''educational'' \<and> confidence r = 0.5 \<and> matched_pattern r = None)"
    by (simp add: classify_intent_def Let_def cr er)
  then obtain r where r: "classify_intent re_search text = Inr r"
    and v: "intent r = ''command'' \<or> intent r = ''educational''"
    and g: "confidence r \<ge> 0.5"
    and i: "intent r = ''command'' \<longleftrightarrow> bm_confidence cr > 0.6"
    and d: "\<not> bm_confidence cr > 0.6 \<and> \<not> bm_confidence er > 0.5 \<longrightarrow>
        intent r = ''educational'' \<and> confidence r = 0.5 \<and> matched_pattern r = None"
    by blast
  from i best have j: "intent r = ''command'' \<longleftrightarrow>
        (\<exists>p \<in> set command_patterns. \<exists>c.
           pattern_confidence re_search (strip (lower text)) p = Inr c \<and> c > 0.6)"
    by blast
  from r cr er v g i j d show ?thesis by blast
qed

theorem classify_intent_two_valued_witness:
  "classify_intent re_search_compiled ''Hello there'' =
     Inr \<lparr>intent = ''educational'', confidence = 0.5, matched_pattern = None,
          ir_keywords = [], original_text = ''Hello there''\<rparr> \<and>
   (case classify_intent re_search_compiled '' Add 2 and 3'' of
      Inl e \<Rightarrow> False
    | Inr r \<Rightarrow> intent r = ''command'' \<and> confidence r = 0.8)"
proof -
  have w1: "check_patterns re_search_compiled (strip (lower ''Hello there'')) command_patterns =
      Inr \<lparr>bm_confidence = 0, bm_pattern = None, bm_keywords = []\<rparr>"
    by code_simp
  have w2: "check_patterns re_search_compiled (strip (lower ''Hello there'')) educational_patterns =
      Inr \<lparr>bm_confidence = 0, bm_pattern = None, bm_keywords = []\<rparr>"
    by code_simp
  from classify_intent_two_valued [of re_search_compiled "''Hello there''"]
  obtain r cr er where r: "classify_intent re_search_compiled ''Hello there'' = Inr r"
    and cr: "check_patterns re_search_compiled (strip (lower ''Hello there'')) command_patterns = Inr cr"
    and er: "check_patterns re_search_compiled (strip (lower ''Hello there'')) educational_patterns = Inr er"
    and d: "\<not> bm_confidence cr > 0.6 \<and> \<not> bm_confidence er > 0.5 \<longrightarrow>
         intent r = ''educational'' \<and> confidence r = 0.5 \<and> matched_pattern r = None"
    by blast
  from cr w1 have c0: "bm_confidence cr = 0" by auto
  from er w2 have e0: "bm_confidence er = 0" by auto
  from d c0 e0
  have "intent r = ''educational'' \<and> confidence r = 0.5 \<and> matched_pattern r = None"
    by simp
  moreover have "case classify_intent re_search_compiled ''Hello there'' of
     Inl e \<Rightarrow> False | Inr r \<Rightarrow> ir_keywords r = [] \<and> original_text r = ''Hello there''"
    by code_simp
  ultimately have 1: "classify_intent re_search_compiled ''Hello there'' =
     Inr \<lparr>intent = ''educational'', confidence = 0.5, matched_pattern = None,
          ir_keywords = [], original_text = ''Hello there''\<rparr>"
    using r by simp
  have 2: "case classify_intent re_search_compiled '' Add 2 and 3'' of
      Inl e \<Rightarrow> False
    | Inr r \<Rightarrow> intent r = ''command'' \<and> confidence r = 0.8"
    by code_simp
  from 1 2 show ?thesis ..
qed

text \<open>
  Claim C2. For every utterance the classification returns, and \<open>process_text_input\<close>
  makes exactly one of two calls: \<open>_handle_command\<close> (which runs
  \<open>execute_command\<close>) exactly when the intent is \<open>command\<close> with a confidence above
  0.7, and \<open>_handle_educational_query\<close> exactly in every other case.
\<close>

theorem process_text_input_routes:
  "\<exists>r. classify_intent re_search text = Inr r \<and>
     (process_text_input re_search text = Handle_command text r \<longleftrightarrow>
        intent r = ''command'' \<and> confidence r > 0.7) \<and>
     (process_text_input re_search text = Handle_educational_query text r \<longleftrightarrow>
        \<not> (intent r = ''command'' \<and> confidence r > 0.7)) \<and>
     (process_text_input re_search text = Handle_command text r \<or>
      process_text_input re_search text = Handle_educational_query text r)"
proof -
  obtain r where r: "classify_intent re_search text = Inr r"
    using classify_intent_returns by blast
  show ?thesis
    by (auto simp: r process_text_input_def Let_def)
qed

theorem process_text_input_routes_witness:
  "(\<exists>r. classify_intent re_search_compiled ''add 2 and 3'' = Inr r \<and>
        intent r = ''command'' \<and> confidence r = 0.8 \<and>
        process_text_input re_search_compiled ''add 2 and 3'' = Handle_command ''add 2 and 3'' r) \<and>
   (\<exists>r. classify_intent re_search_compiled ''draw an apple'' = Inr r \<and>
        intent r = ''command'' \<and> confidence r = 0.7 \<and>
        process_text_input re_search_compiled ''draw an apple'' =
          Handle_educational_query ''draw an apple'' r)"
proof -
  have a: "case classify_intent re_search_compiled ''add 2 and 3'' of
             Inl e \<Rightarrow> False | Inr r \<Rightarrow> intent r = ''command'' \<and> confidence r = 0.8"
    by code_simp
  have b: "case classify_intent re_search_compiled ''draw an apple'' of
             Inl e \<Rightarrow> False | Inr r \<Rightarrow> intent r = ''command'' \<and> confidence r = 0.7"
    by code_simp
  obtain r1 where r1: "classify_intent re_search_compiled ''add 2 and 3'' = Inr r1"
    and c1: "process_text_input re_search_compiled ''add 2 and 3'' = Handle_command ''add 2 and 3'' r1
       \<longleftrightarrow> intent r1 = ''command'' \<and> confidence r1 > 0.7"
    using process_text_input_routes [of re_search_compiled "''add 2 and 3''"]
    by (elim exE conjE)
  have v1: "intent r1 = ''command''" "confidence r1 = 0.8"
    using a unfolding r1 by simp_all
  have p1: "process_text_input re_search_compiled ''add 2 and 3'' = Handle_command ''add 2 and 3'' r1"
    unfolding c1 v1 by simp
  obtain r2 where r2: "classify_intent re_search_compiled ''draw an apple'' = Inr r2"
    and c2: "process_text_input re_search_compiled ''draw an apple'' =
          Handle_educational_query ''draw an apple'' r2
       \<longleftrightarrow> \<not> (intent r2 = ''command'' \<and> confidence r2 > 0.7)"
    using process_text_input_routes [of re_search_compiled "''draw an apple''"]
    by (elim exE conjE)
  have v2: "intent r2 = ''command''" "confidence r2 = 0.7"
    using b unfolding r2 by simp_all
  have p2: "process_text_input re_search_compiled ''draw an apple'' =
          Handle_educational_query ''draw an apple'' r2"
    unfolding c2 v2 by simp
  have e1: "\<exists>r. classify_intent re_search_compiled ''add 2 and 3'' = Inr r \<and>
        intent r = ''command'' \<and> confidence r = 0.8 \<and>
        process_text_input re_search_compiled ''add 2 and 3'' = Handle_command ''add 2 and 3'' r"
    using r1 v1 p1 by (intro exI [of _ r1] conjI)
  have e2: "\<exists>r. classify_intent re_search_compiled ''draw an apple'' = Inr r \<and>
        intent r = ''command'' \<and> confidence r = 0.7 \<and>
        process_text_input re_search_compiled ''draw an apple'' =
          Handle_educational_query ''draw an apple'' r"
    using r2 v2 p2 by (intro exI [of _ r2] conjI)
  from e1 e2 show ?thesis ..
qed

section \<open>Properties of the math commands\<close>

subsection \<open>Lists of integers\<close>

lemma py_str_whole_int [simp]: "py_str_whole ops (PyInt a) = Inr (str_int a)"
  by (simp add: py_str_whole_def py_int_of_def py_eq_int_def)

lemma py_int_of_int [simp]: "py_int_of ops (PyInt a) = Inr a"
  by (simp add: py_int_of_def)

lemma py_str_int [simp]: "py_str ops (PyInt a) = str_int a"
  by (simp add: py_str_def)

lemma py_add_ints [simp]: "py_add ops (PyInt a) (PyInt b) = Inr (PyInt (a + b))"
  by (simp add: py_add_def py_arith_def)

lemma py_sub_ints [simp]: "py_sub ops (PyInt a) (PyInt b) = Inr (PyInt (a - b))"
  by (simp add: py_sub_def py_arith_def)

lemma py_mul_ints [simp]: "py_mul ops (PyInt a) (PyInt b) = Inr (PyInt (a * b))"
  by (simp add: py_mul_def py_arith_def)












subsection \<open>The errors of the division\<close>

lemma py_float_error: "py_float ops v = Inl e \<Longrightarrow> e = OverflowError"
  by (auto simp: py_float_def split: number.splits option.splits)

lemma py_int_of_error: "py_int_of ops v = Inl e \<Longrightarrow> e = ValueError \<or> e = OverflowError"
  by (auto simp: py_int_of_def split: number.splits option.splits if_splits)

lemma py_str_whole_error: "py_str_whole ops v = Inl e \<Longrightarrow> e = ValueError \<or> e = OverflowError"
  by (auto simp: py_str_whole_def split: sum.splits dest: py_int_of_error)

lemma py_truediv_nonzero:
  "\<not> py_eq_int ops w 0 \<Longrightarrow> py_truediv ops v w \<noteq> Inl ZeroDivisionError"
  by (auto simp: py_truediv_def py_eq_int_def split: number.splits option.splits sum.splits
        dest: py_float_error)

lemma quotient_nonzero:
  "\<not> list_ex (\<lambda>n. py_eq_int ops n 0) nums \<Longrightarrow>
   py_reduce (py_truediv ops) acc nums \<noteq> Inl ZeroDivisionError"
proof (induction nums arbitrary: acc)
  case Nil
  then show ?case by simp
next
  case (Cons n nums)
  then have n: "py_truediv ops acc n \<noteq> Inl ZeroDivisionError"
    by (simp add: py_truediv_nonzero)
  show ?case
  proof (cases "py_truediv ops acc n")
    case (Inl e)
    with n show ?thesis by simp
  next
    case (Inr acc')
    with Cons show ?thesis by simp
  qed
qed

lemma round_quotient_error: "round_quotient ops v \<noteq> Inl ZeroDivisionError"
  by (auto simp: round_quotient_def split: sum.splits number.splits dest: py_int_of_error)

lemma prefix_items_error: "prefix_items ops sign_id sign i x0 nums \<noteq> Inl ZeroDivisionError"
proof (induction nums arbitrary: i x0)
  case Nil
  then show ?case by simp
next
  case (Cons n nums)
  show ?case
  proof (cases "py_str_whole ops n")
    case (Inl e)
    then show ?thesis using py_str_whole_error [OF Inl] by (auto simp: Let_def)
  next
    case (Inr shown)
    then show ?thesis using Cons.IH [of "i + 1" "x0 + 40 + 60"]
      by (auto simp: Let_def split: sum.splits)
  qed
qed

lemma division_scene_error:
  "numbers \<noteq> [] \<Longrightarrow> create_division_scene ops numbers result approach \<noteq> Inl ZeroDivisionError"
  using prefix_items_error [of ops "''divide-''" divide_sign 1 "100 + 60"]
  by (cases numbers)
     (auto simp: create_division_scene_def split: sum.splits dest: py_str_whole_error)

subsection \<open>The claims about the handlers\<close>




text \<open>
  Claim C8. When the list has at least two numbers and one of the divisors equals zero,
  \<open>_handle_division\<close> returns, without raising, the refusal to divide by zero, with an
  empty scene and an empty \<open>final_answer\<close>, and leaves the tracker alone; a division
  that succeeds had no zero among its divisors; and whatever the numbers, the handler
  never raises \<open>ZeroDivisionError\<close>.
\<close>

theorem division_by_zero_refused:
  "(2 \<le> length numbers \<and> (\<exists>n \<in> set (tl numbers). py_eq_int ops n 0) \<longrightarrow>
      (\<exists>r. handle_division ops clk tracker numbers grade input_text = Inr (r, tracker) \<and>
           \<not> success r \<and>
           response r = ''I can't divide by zero. That's undefined in mathematics.'' \<and>
           scene r = [] \<and> final_answer r = [])) \<and>
   handle_division ops clk tracker numbers grade input_text \<noteq> Inl ZeroDivisionError \<and>
   (\<forall>r t. handle_division ops clk tracker numbers grade input_text = Inr (r, t) \<and> success r \<longrightarrow>
      (\<forall>n \<in> set (tl numbers). \<not> py_eq_int ops n 0))"
proof (intro conjI)
  show "2 \<le> length numbers \<and> (\<exists>n \<in> set (tl numbers). py_eq_int ops n 0) \<longrightarrow>
      (\<exists>r. handle_division ops clk tracker numbers grade input_text = Inr (r, tracker) \<and>
           \<not> success r \<and>
           response r = ''I can't divide by zero. That's undefined in mathematics.'' \<and>
           scene r = [] \<and> final_answer r = [])"
    by (auto simp: handle_division_def failure_def list_ex_iff)
next
  show "handle_division ops clk tracker numbers grade input_text \<noteq> Inl ZeroDivisionError"
  proof (cases "length numbers < 2 \<or> list_ex (\<lambda>n. py_eq_int ops n 0) (tl numbers)")
    case True
    then show ?thesis by (auto simp: handle_division_def)
  next
    case False
    then obtain first others where n: "numbers = first # others"
      by (cases numbers) auto
    from False n have nz: "\<not> list_ex (\<lambda>n. py_eq_int ops n 0) others" by simp
    have q: "py_reduce (py_truediv ops) first others \<noteq> Inl ZeroDivisionError"
      using quotient_nonzero [OF nz] .
    have sc: "create_division_scene ops numbers result (get_approach grade) \<noteq> Inl ZeroDivisionError"
      for result
      using division_scene_error [of numbers] n by simp
    show ?thesis
      using False q sc round_quotient_error [of ops]
      by (auto simp: handle_division_def n Let_def split: sum.splits)
  qed
next
  show "\<forall>r t. handle_division ops clk tracker numbers grade input_text = Inr (r, t) \<and> success r \<longrightarrow>
      (\<forall>n \<in> set (tl numbers). \<not> py_eq_int ops n 0)"
    by (auto simp: handle_division_def failure_def list_ex_iff split: if_splits)
qed


theorem division_by_zero_refused_witness:
  "2 \<le> length [PyInt 6, PyInt 3, PyInt 0 :: rat number] \<and>
   (\<exists>n \<in> set (tl [PyInt 6, PyInt 3, PyInt 0 :: rat number]). py_eq_int exact_floats n 0) \<and>
   handle_division exact_floats example_clock (Some example_tracker)
       [PyInt 6, PyInt 3, PyInt 0] ''third_grade'' ''divide 6 by 3 by 0'' =
     Inr (failure ''I can't divide by zero. That's undefined in mathematics.'',
          Some example_tracker) \<and>
   (case handle_division exact_floats example_clock (Some example_tracker)
           [PyInt 6, PyInt 3] ''kindergarten'' ''divide 6 by 3'' of
      Inl e \<Rightarrow> False
    | Inr (r, t) \<Rightarrow> success r \<and> map_of (final_answer r) ''correct_value'' = Some ''2'') \<and>
   \<not> py_eq_int exact_floats (PyInt 3 :: rat number) 0"
proof -
  let ?zero = "[PyInt 6, PyInt 3, PyInt 0 :: rat number]"
  have h: "2 \<le> length ?zero \<and> (\<exists>n \<in> set (tl ?zero). py_eq_int exact_floats n 0)"
    by (simp add: py_eq_int_def)
  from division_by_zero_refused [of ?zero exact_floats example_clock "Some example_tracker"
      "''third_grade''" "''divide 6 by 3 by 0''"] h
  obtain r where r: "handle_division exact_floats example_clock (Some example_tracker)
       ?zero ''third_grade'' ''divide 6 by 3 by 0'' = Inr (r, Some example_tracker)"
    and f: "\<not> success r"
      "response r = ''I can't divide by zero. That's undefined in mathematics.''"
      "scene r = []" "final_answer r = []"
    by blast
  from f have "r = failure ''I can't divide by zero. That's undefined in mathematics.''"
    by (simp add: failure_def)
  with r have 1: "handle_division exact_floats example_clock (Some example_tracker)
       ?zero ''third_grade'' ''divide 6 by 3 by 0'' =
     Inr (failure ''I can't divide by zero. That's undefined in mathematics.'',
          Some example_tracker)"
    by simp
  have 2: "case handle_division exact_floats example_clock (Some example_tracker)
           [PyInt 6, PyInt 3] ''kindergarten'' ''divide 6 by 3'' of
      Inl e \<Rightarrow> False
    | Inr (r, t) \<Rightarrow> success r \<and> map_of (final_answer r) ''correct_value'' = Some ''2''"
    by code_simp
  have 3: "\<not> py_eq_int exact_floats (PyInt 3 :: rat number) 0"
    by (simp add: py_eq_int_def)
  from h 1 2 3 show ?thesis by (intro conjI) simp_all
qed

text \<open>
  Claim C9. With fewer than two numbers each of the four handlers returns a failure
  with an empty scene and an empty \<open>final_answer\<close>, and the tracker is as it was.
\<close>

theorem too_few_numbers_refused:
  assumes "length numbers < 2"
  shows "(\<exists>r. handle_addition ops clk tracker numbers grade input_text = Inr (r, tracker) \<and>
            \<not> success r \<and> scene r = [] \<and> final_answer r = []) \<and>
         (\<exists>r. handle_subtraction ops clk tracker numbers grade input_text = Inr (r, tracker) \<and>
            \<not> success r \<and> scene r = [] \<and> final_answer r = []) \<and>
         (\<exists>r. handle_multiplication ops clk tracker numbers grade input_text = Inr (r, tracker) \<and>
            \<not> success r \<and> scene r = [] \<and> final_answer r = []) \<and>
         (\<exists>r. handle_division ops clk tracker numbers grade input_text = Inr (r, tracker) \<and>
            \<not> success r \<and> scene r = [] \<and> final_answer r = [])"
  using assms
  by (simp add: handle_addition_def handle_subtraction_def handle_multiplication_def
        handle_division_def failure_def)

theorem too_few_numbers_refused_witness:
  "length [PyInt 7 :: rat number] < 2 \<and>
   handle_addition exact_floats example_clock (Some example_tracker) [PyInt 7]
       ''third_grade'' ''add 7'' =
     Inr (failure ''I need at least two numbers to add together.'', Some example_tracker) \<and>
   (\<exists>r. handle_division exact_floats example_clock (Some example_tracker) [PyInt 7]
       ''third_grade'' ''divide 7'' = Inr (r, Some example_tracker) \<and> \<not> success r)"
proof -
  have h: "length [PyInt 7 :: rat number] < 2" by simp
  from too_few_numbers_refused [OF h, of exact_floats example_clock "Some example_tracker"
      "''third_grade''" "''divide 7''"]
  have d: "\<exists>r. handle_division exact_floats example_clock (Some example_tracker) [PyInt 7]
       ''third_grade'' ''divide 7'' = Inr (r, Some example_tracker) \<and> \<not> success r"
    by blast
  have a: "handle_addition exact_floats example_clock (Some example_tracker) [PyInt 7]
       ''third_grade'' ''add 7'' =
     Inr (failure ''I need at least two numbers to add together.'', Some example_tracker)"
    by (simp add: handle_addition_def)
  from h a d show ?thesis by (intro conjI)
qed

end
